theory Spec2Isabelle
  imports Complex_Main "HOL-Library.Word"
begin

unbundle bit_operations_syntax

section \<open>The attitude estimator of flight/Modules/Attitude/attitude.c\<close>

subsection \<open>Values of the C type float\<close>

text \<open>
  A C \<^verbatim>\<open>float\<close> (and the \<^verbatim>\<open>double\<close> intermediate results of \<^verbatim>\<open>sqrt\<close>,
  \<^verbatim>\<open>fabs\<close> and of the constants \<^verbatim>\<open>0.001\<close>, \<^verbatim>\<open>M_PI\<close>) is modelled by an exact real
  number or by \<open>NaN\<close>. Arithmetic on finite values is exact: rounding, overflow and the
  two infinities are outside this model. \<open>NaN\<close> is kept because the code produces and tests
  it: \<^verbatim>\<open>acosf\<close> outside \<open>[-1, 1]\<close>, \<^verbatim>\<open>0 / 0\<close>, the test \<^verbatim>\<open>qmag != qmag\<close>. Every
  operation with a \<open>NaN\<close> operand gives \<open>NaN\<close>, and every ordered comparison with a
  \<open>NaN\<close> operand is false, as in C. A division by zero gives \<open>NaN\<close>: for a zero dividend
  that is the IEEE result; for a non-zero dividend IEEE gives an infinity, which this model
  does not have.
\<close>

datatype cfloat = Fin real | NaN

instantiation cfloat :: "{plus, minus, uminus, times, inverse, ord}"
begin

fun plus_cfloat :: "cfloat \<Rightarrow> cfloat \<Rightarrow> cfloat" where
  "plus_cfloat (Fin a) (Fin b) = Fin (a + b)"
| "plus_cfloat _ _ = NaN"

fun minus_cfloat :: "cfloat \<Rightarrow> cfloat \<Rightarrow> cfloat" where
  "minus_cfloat (Fin a) (Fin b) = Fin (a - b)"
| "minus_cfloat _ _ = NaN"

fun uminus_cfloat :: "cfloat \<Rightarrow> cfloat" where
  "uminus_cfloat (Fin a) = Fin (- a)"
| "uminus_cfloat NaN = NaN"

fun times_cfloat :: "cfloat \<Rightarrow> cfloat \<Rightarrow> cfloat" where
  "times_cfloat (Fin a) (Fin b) = Fin (a * b)"
| "times_cfloat _ _ = NaN"

fun divide_cfloat :: "cfloat \<Rightarrow> cfloat \<Rightarrow> cfloat" where
  "divide_cfloat (Fin a) (Fin b) = (if b = 0 then NaN else Fin (a / b))"
| "divide_cfloat _ _ = NaN"

fun inverse_cfloat :: "cfloat \<Rightarrow> cfloat" where
  "inverse_cfloat (Fin a) = (if a = 0 then NaN else Fin (1 / a))"
| "inverse_cfloat NaN = NaN"

fun less_cfloat :: "cfloat \<Rightarrow> cfloat \<Rightarrow> bool" where
  "less_cfloat (Fin a) (Fin b) = (a < b)"
| "less_cfloat _ _ = False"

fun less_eq_cfloat :: "cfloat \<Rightarrow> cfloat \<Rightarrow> bool" where
  "less_eq_cfloat (Fin a) (Fin b) = (a \<le> b)"
| "less_eq_cfloat _ _ = False"

instance ..

end

text \<open>The C test \<^verbatim>\<open>x != x\<close>, true exactly for NaN.\<close>

fun is_nan :: "cfloat \<Rightarrow> bool" where
  "is_nan NaN = True"
| "is_nan (Fin a) = False"

fun c_sqrt :: "cfloat \<Rightarrow> cfloat" where
  "c_sqrt (Fin a) = (if a < 0 then NaN else Fin (sqrt a))"
| "c_sqrt NaN = NaN"

fun c_acosf :: "cfloat \<Rightarrow> cfloat" where
  "c_acosf (Fin a) = (if - 1 \<le> a \<and> a \<le> 1 then Fin (arccos a) else NaN)"
| "c_acosf NaN = NaN"

fun c_fabs :: "cfloat \<Rightarrow> cfloat" where
  "c_fabs (Fin a) = Fin \<bar>a\<bar>"
| "c_fabs NaN = NaN"

text \<open>Conversions of the integer types to float.\<close>

definition float_of_i32 :: "32 word \<Rightarrow> cfloat" where
  "float_of_i32 w = Fin (real_of_int (sint w))"

definition float_of_i16 :: "16 word \<Rightarrow> cfloat" where
  "float_of_i16 w = Fin (real_of_int (sint w))"

definition float_of_u8 :: "8 word \<Rightarrow> cfloat" where
  "float_of_u8 w = Fin (real (unat w))"

definition float_of_u32 :: "32 word \<Rightarrow> cfloat" where
  "float_of_u32 w = Fin (real (unat w))"

type_synonym vec3 = "cfloat \<times> cfloat \<times> cfloat"
type_synonym quat = "cfloat \<times> cfloat \<times> cfloat \<times> cfloat"
type_synonym mat3 = "vec3 \<times> vec3 \<times> vec3"

subsection \<open>Collaborators that are not part of attitude.c\<close>

text \<open>
  Modelled from the spec: \<^verbatim>\<open>rot_mult(M, v, out)\<close> of the math library
  (CoordinateConversions), the matrix-vector product of a 3x3 matrix, given by its rows,
  with a vector.
\<close>

definition rot_mult :: "mat3 \<Rightarrow> vec3 \<Rightarrow> vec3" where
  "rot_mult M v =
     (case M of ((r00, r01, r02), (r10, r11, r12), (r20, r21, r22)) \<Rightarrow>
      case v of (v0, v1, v2) \<Rightarrow>
        (r00 * v0 + r01 * v1 + r02 * v2,
         r10 * v0 + r11 * v1 + r12 * v2,
         r20 * v0 + r21 * v1 + r22 * v2))"

text \<open>
  Modelled from the spec: \<^verbatim>\<open>CrossProduct(a, b, out)\<close> of the math library, the vector
  cross product \<open>a \<times> b\<close>.
\<close>

definition CrossProduct :: "vec3 \<Rightarrow> vec3 \<Rightarrow> vec3" where
  "CrossProduct a b =
     (case a of (a0, a1, a2) \<Rightarrow> case b of (b0, b1, b2) \<Rightarrow>
        (a1 * b2 - a2 * b1, a2 * b0 - a0 * b2, a0 * b1 - a1 * b0))"

text \<open>
  Modelled from the spec: the Attitude alarm of the alarm library, at severity Critical,
  Error or Clear. \<^verbatim>\<open>AlarmsSet\<close> stores the given severity, \<^verbatim>\<open>AlarmsClear\<close> stores Clear.
\<close>

datatype alarm_severity = ALARM_CLEAR | ALARM_ERROR | ALARM_CRITICAL

text \<open>
  Modelled from the spec: the platform tick counter has millisecond granularity, so
  \<^verbatim>\<open>portTICK_RATE_MS\<close> (milliseconds per tick) is 1, and \<^verbatim>\<open>portTickType\<close> is an unsigned
  32-bit counter that wraps around, with \<^verbatim>\<open>portMAX_DELAY\<close> its largest value.
\<close>

definition portTICK_RATE_MS :: "32 word" where
  "portTICK_RATE_MS = 1"

definition portMAX_DELAY :: "32 word" where
  "portMAX_DELAY = 0xFFFFFFFF"

text \<open>The \<^verbatim>\<open>Armed\<close> field of the FlightStatus object.\<close>

datatype armed_status = DISARMED | ARMING | ARMED

text \<open>The three rates of the AttitudeSettings object that the task reloads.\<close>

record AttitudeSettingsData =
  AccelKp :: cfloat
  AccelKi :: cfloat
  YawBiasRate :: cfloat

text \<open>One sample of the accelerometer, \<^verbatim>\<open>struct pios_adxl345_data\<close>: three int16 counts.\<close>

record pios_adxl345_data =
  adxl_x :: "16 word"
  adxl_y :: "16 word"
  adxl_z :: "16 word"

subsection \<open>State\<close>

text \<open>The AttitudeRaw object: \<^verbatim>\<open>gyros[3]\<close>, \<^verbatim>\<open>accels[3]\<close>, \<^verbatim>\<open>gyrotemp[2]\<close>.\<close>

record AttitudeRawData =
  gyros :: vec3
  accels :: vec3
  gyrotemp :: "cfloat \<times> cfloat"

text \<open>
  The file-scope variables of attitude.c, the static \<^verbatim>\<open>lastSysTime\<close> of
  \<^verbatim>\<open>updateAttitude\<close>, the local \<^verbatim>\<open>init\<close> of \<^verbatim>\<open>AttitudeTask\<close>, and the objects the task
  writes: the Attitude alarm, the published AttitudeRaw object and the quaternion
  \<^verbatim>\<open>q1..q4\<close> of the published AttitudeActual object (its Euler angles, computed by the
  math library from the same quaternion, are left out).
\<close>

record att_state =
  gyro_correct_int :: vec3
  accelKi :: cfloat
  accelKp :: cfloat
  yawBiasRate :: cfloat
  gyroGain :: cfloat
  accelbias :: "16 word \<times> 16 word \<times> 16 word"
  q :: quat
  R :: mat3
  rotate :: "8 word"
  zero_during_arming :: bool
  bias_correct_gyro :: bool
  lastSysTime :: "32 word"
  init :: "8 word"
  attitude_alarm :: alarm_severity
  attitudeRaw_obj :: AttitudeRawData
  attitudeActual_q :: quat

text \<open>
  What one cycle of the task reads from outside: the FlightStatus, the settings object,
  the tick counter (read twice by the startup test and once by \<^verbatim>\<open>updateAttitude\<close>), the
  result of the gyro queue receive (\<open>None\<close> is \<^verbatim>\<open>errQUEUE_EMPTY\<close> after the timeout, else
  the four floats, temperature first), the result of \<^verbatim>\<open>PIOS_ADXL345_FifoElements\<close>, and
  the results of the successive calls of \<^verbatim>\<open>PIOS_ADXL345_Read\<close> (call number \<open>k\<close>, from 0,
  gives a sample and the number of samples remaining).
\<close>

record cycle_env =
  flight_armed :: armed_status
  settings_obj :: AttitudeSettingsData
  tick_first :: "32 word"
  tick_second :: "32 word"
  tick_update :: "32 word"
  gyro_queue_rx :: "(cfloat \<times> cfloat \<times> cfloat \<times> cfloat) option"
  fifo_elements :: "8 word"
  fifo_reads :: "nat \<Rightarrow> pios_adxl345_data \<times> 8 word"

subsection \<open>updateSensors\<close>

datatype sensor_error = SensorTimeout | AccelEmpty

text \<open>
  The do-while loop of lines 251-257. \<open>k\<close> counts the calls of \<^verbatim>\<open>PIOS_ADXL345_Read\<close>
  made so far; \<open>x\<close>, \<open>y\<close>, \<open>z\<close> are int32 and \<open>i\<close> is uint8. The result is the
  values of \<open>x\<close>, \<open>y\<close>, \<open>z\<close>, \<open>i\<close> and \<^verbatim>\<open>samples_remaining\<close> when the loop is left.
\<close>

function accel_drain ::
  "(nat \<Rightarrow> pios_adxl345_data \<times> 8 word) \<Rightarrow> nat \<Rightarrow> 32 word \<Rightarrow> 32 word \<Rightarrow> 32 word \<Rightarrow> 8 word
     \<Rightarrow> 32 word \<times> 32 word \<times> 32 word \<times> 8 word \<times> 8 word" where
  "accel_drain reads k x y z i =
     (let i' = i + 1;
          accel_data = fst (reads k);
          samples_remaining = snd (reads k);
          x' = x + scast (adxl_x accel_data);
          y' = y + (- scast (adxl_y accel_data));
          z' = z + (- scast (adxl_z accel_data))
      in if i' < 32 \<and> samples_remaining > 0
         then accel_drain reads (Suc k) x' y' z' i'
         else (x', y', z', i', samples_remaining))"
  by pat_completeness auto

termination accel_drain
proof -
  have dec: "unat (30 - i) < unat (31 - i)" if "i + 1 < 32" for i :: "8 word"
  proof -
    have "i \<noteq> 31" using that by auto
    then have nz: "31 - i \<noteq> 0" by auto
    have "30 - i = (31 - i) - 1" by simp
    then have "unat (30 - i) = unat (31 - i) - 1"
      using unat_minus_one [OF nz] by simp
    moreover have "unat (31 - i) \<noteq> 0" using nz by (simp add: unat_eq_zero)
    ultimately show ?thesis by simp
  qed
  show ?thesis
    by (relation "measure (\<lambda>(reads, k, x, y, z, i). unat (31 - i))")
       (auto intro: dec)
qed

declare accel_drain.simps [simp del]

text \<open>
  \<^verbatim>\<open>updateSensors\<close>, lines 226-297. The result is \<open>Inl\<close> for the return value -1, with
  the kind of failure and the state then, and \<open>Inr\<close> for the return value 0, with the state
  and the raw data then.
\<close>

definition updateSensors ::
  "att_state \<Rightarrow> cycle_env \<Rightarrow> AttitudeRawData
     \<Rightarrow> (sensor_error \<times> att_state) + (att_state \<times> AttitudeRawData)" where
  "updateSensors s env attitudeRaw =
     (case gyro_queue_rx env of
        None \<Rightarrow> Inl (SensorTimeout, s\<lparr>attitude_alarm := ALARM_ERROR\<rparr>)
      | Some (gyro0, gyro1, gyro2, gyro3) \<Rightarrow>
          if fifo_elements env = 0 then Inl (AccelEmpty, s)
          else
            (let gyros_x = (- (gyro1 - Fin 1665)) * gyroGain s;
                 gyros_y = (gyro2 - Fin 1665) * gyroGain s;
                 gyros_z = (- (gyro3 - Fin 1665)) * gyroGain s;
                 (x, y, z, i, samples_remaining) = accel_drain (fifo_reads env) 0 0 0 0 0;
                 gyrotemp' = (float_of_u8 samples_remaining, float_of_u8 i);
                 accel = (float_of_i32 x / float_of_u8 i,
                          float_of_i32 y / float_of_u8 i,
                          float_of_i32 z / float_of_u8 i);
                 (accels1, gyros1) =
                   (if rotate s \<noteq> 0
                    then (rot_mult (R s) accel, rot_mult (R s) (gyros_x, gyros_y, gyros_z))
                    else (accel, (gyros_x, gyros_y, gyros_z)));
                 (a0, a1, a2) = accels1;
                 (b0, b1, b2) = accelbias s;
                 accels2 = ((a0 - float_of_i16 b0) * Fin 0.004 * Fin 9.81,
                            (a1 - float_of_i16 b1) * Fin 0.004 * Fin 9.81,
                            (a2 - float_of_i16 b2) * Fin 0.004 * Fin 9.81);
                 (g0, g1, g2) = gyros1;
                 (c0, c1, c2) = gyro_correct_int s;
                 gyros2 = (if bias_correct_gyro s then (g0 + c0, g1 + c1, g2 + c2)
                           else (g0, g1, g2));
                 c2' = c2 + (- (snd (snd gyros2))) * yawBiasRate s
             in Inr (s\<lparr>gyro_correct_int := (c0, c1, c2')\<rparr>,
                     attitudeRaw\<lparr>gyros := gyros2, accels := accels2, gyrotemp := gyrotemp'\<rparr>)))"

subsection \<open>updateAttitude\<close>

text \<open>
  The time step of lines 302-305: 0.001 when the tick counter has not moved, else the
  tick difference, masked, divided as an unsigned integer by \<^verbatim>\<open>portTICK_RATE_MS\<close>, then
  as a float by 1000.
\<close>

definition time_step :: "32 word \<Rightarrow> 32 word \<Rightarrow> cfloat" where
  "time_step thisSysTime lastTime =
     (if thisSysTime = lastTime then Fin 0.001
      else float_of_u32 ((portMAX_DELAY AND (thisSysTime - lastTime)) div portTICK_RATE_MS)
             / Fin 1000)"

text \<open>The down vector in the body frame, lines 321-323.\<close>

definition grot_of :: "quat \<Rightarrow> vec3" where
  "grot_of qq =
     (case qq of (q0, q1, q2, q3) \<Rightarrow>
        (- (Fin 2 * (q1 * q3 - q0 * q2)),
         - (Fin 2 * (q2 * q3 + q0 * q1)),
         - (q0 * q0 - q1 * q1 - q2 * q2 + q3 * q3)))"

text \<open>The length of a vector as the code computes it (lines 330, 350, 363).\<close>

definition vec_mag :: "vec3 \<Rightarrow> cfloat" where
  "vec_mag v = (case v of (v0, v1, v2) \<Rightarrow> c_sqrt (v0 * v0 + v1 * v1 + v2 * v2))"

text \<open>
  The error vector before the rejection of linear acceleration, lines 325-335: the cross
  product of the accelerations with the down vector, stretched to the length
  \<^verbatim>\<open>error_phi\<close> when its own length is positive.
\<close>

definition accel_err_rotation :: "quat \<Rightarrow> vec3 \<Rightarrow> vec3" where
  "accel_err_rotation qq acc =
     (let grot = grot_of qq;
          accel_err = CrossProduct acc grot;
          (a0, a1, a2) = acc;
          (g0, g1, g2) = grot;
          error_phi = c_acosf (a0 * g0 + a1 * g1 + a2 * g2);
          accel_err_mag = vec_mag accel_err;
          (e0, e1, e2) = accel_err
      in if accel_err_mag > Fin 0
         then (e0 * (error_phi / accel_err_mag),
               e1 * (error_phi / accel_err_mag),
               e2 * (error_phi / accel_err_mag))
         else accel_err)"

text \<open>The rejection of linear acceleration, lines 350-369.\<close>

definition accel_err_rejection :: "vec3 \<Rightarrow> vec3 \<Rightarrow> vec3" where
  "accel_err_rejection acc accel_err =
     (let accel_mag = vec_mag acc;
          (e0, e1, e2) = accel_err
      in if accel_mag \<le> Fin 9.8 \<or> accel_mag > Fin 1.5 * Fin 9.8
         then (Fin 0, Fin 0, Fin 0)
         else
           (let displacement = c_acosf (Fin 9.8 / accel_mag);
                err_length = vec_mag accel_err
            in if err_length > Fin 0
               then (e0 - e0 * displacement / err_length,
                     e1 - e1 * displacement / err_length,
                     e2 - e2 * displacement / err_length)
               else accel_err))"

text \<open>The quaternion time step with the hemisphere fix, lines 386-403.\<close>

definition quat_step :: "quat \<Rightarrow> vec3 \<Rightarrow> cfloat \<Rightarrow> quat" where
  "quat_step qq gyro dT =
     (case qq of (q0, q1, q2, q3) \<Rightarrow> case gyro of (gyro0, gyro1, gyro2) \<Rightarrow>
       (let qdot0 = (- q1 * gyro0 - q2 * gyro1 - q3 * gyro2) * dT * Fin pi / Fin 180 / Fin 2;
            qdot1 = (q0 * gyro0 - q3 * gyro1 + q2 * gyro2) * dT * Fin pi / Fin 180 / Fin 2;
            qdot2 = (q3 * gyro0 + q0 * gyro1 - q1 * gyro2) * dT * Fin pi / Fin 180 / Fin 2;
            qdot3 = (- q2 * gyro0 + q1 * gyro1 + q0 * gyro2) * dT * Fin pi / Fin 180 / Fin 2;
            n0 = q0 + qdot0;
            n1 = q1 + qdot1;
            n2 = q2 + qdot2;
            n3 = q3 + qdot3
        in if n0 < Fin 0 then (- n0, - n1, - n2, - n3) else (n0, n1, n2, n3)))"

text \<open>The length of a quaternion as line 407 computes it.\<close>

definition quat_mag :: "quat \<Rightarrow> cfloat" where
  "quat_mag qq =
     (case qq of (q0, q1, q2, q3) \<Rightarrow> c_sqrt (q0 * q0 + q1 * q1 + q2 * q2 + q3 * q3))"

text \<open>The renormalisation and the defensive reinitialisation, lines 406-420.\<close>

definition quat_renormalize :: "quat \<Rightarrow> quat" where
  "quat_renormalize qq =
     (case qq of (q0, q1, q2, q3) \<Rightarrow>
       (let qmag = quat_mag qq
        in if c_fabs qmag < Fin 0.001 \<or> is_nan qmag
           then (Fin 1, Fin 0, Fin 0, Fin 0)
           else (q0 / qmag, q1 / qmag, q2 / qmag, q3 / qmag)))"

text \<open>
  \<^verbatim>\<open>updateAttitude\<close>, lines 299-431, with the tick count that \<^verbatim>\<open>xTaskGetTickCount\<close>
  returns.
\<close>

definition updateAttitude :: "32 word \<Rightarrow> AttitudeRawData \<Rightarrow> att_state \<Rightarrow> att_state" where
  "updateAttitude thisSysTime attitudeRaw s =
     (let dT = time_step thisSysTime (lastSysTime s);
          (gyro0, gyro1, gyro2) = gyros attitudeRaw;
          accel_err =
            accel_err_rejection (accels attitudeRaw)
              (accel_err_rotation (q s) (accels attitudeRaw));
          (e0, e1, e2) = accel_err;
          (c0, c1, c2) = gyro_correct_int s;
          gyro_correct_int' = (c0 + e0 * accelKi s, c1 + e1 * accelKi s, c2);
          gyro' = (gyro0 + e0 * accelKp s / dT,
                   gyro1 + e1 * accelKp s / dT,
                   gyro2 + e2 * accelKp s / dT);
          q' = quat_renormalize (quat_step (q s) gyro' dT)
      in s\<lparr>lastSysTime := thisSysTime,
            gyro_correct_int := gyro_correct_int',
            q := q',
            attitudeActual_q := q'\<rparr>)"

subsection \<open>One cycle of AttitudeTask\<close>

text \<open>
  The choice of the gains, lines 185-203. The tick counter is read once for each side of
  the startup test, the second time only when the first comparison is true.
\<close>

definition gain_policy :: "cycle_env \<Rightarrow> att_state \<Rightarrow> att_state" where
  "gain_policy env s =
     (if tick_first env < 7000 \<and> tick_second env > 1000
      then s\<lparr>accelKp := Fin 1, accelKi := Fin 0.9, yawBiasRate := Fin 0.23, init := 0\<rparr>
      else if zero_during_arming s \<and> flight_armed env = ARMING
      then s\<lparr>accelKp := Fin 1, accelKi := Fin 0.9, yawBiasRate := Fin 0.23, init := 0\<rparr>
      else if init s = 0
      then s\<lparr>accelKi := AccelKi (settings_obj env),
             accelKp := AccelKp (settings_obj env),
             yawBiasRate := YawBiasRate (settings_obj env),
             init := 1\<rparr>
      else s)"

text \<open>The body of the main loop, lines 182-216.\<close>

definition AttitudeTask_cycle :: "cycle_env \<Rightarrow> att_state \<Rightarrow> att_state" where
  "AttitudeTask_cycle env s =
     (let s1 = gain_policy env s;
          attitudeRaw = attitudeRaw_obj s1
      in case updateSensors s1 env attitudeRaw of
           Inl (e, s2) \<Rightarrow> s2\<lparr>attitude_alarm := ALARM_ERROR\<rparr>
         | Inr (s2, attitudeRaw') \<Rightarrow>
             (updateAttitude (tick_update env) attitudeRaw' s2)
               \<lparr>attitudeRaw_obj := attitudeRaw', attitude_alarm := ALARM_CLEAR\<rparr>)"

subsection \<open>updateAttitude with the range of binary32\<close>

text \<open>
  The model of floats above has no infinity, so it cannot show what a binary32 overflow
  does to the quaternion. For the invariant of the quaternion, \<^verbatim>\<open>updateAttitude\<close> is
  embedded a second time on values that keep the range of the formats: a finite real
  number, one of the two infinities, or NaN. Rounding is still not modelled, and a zero
  has no sign (the only zero divisor that \<^verbatim>\<open>updateAttitude\<close> can meet is the length
  \<^verbatim>\<open>qmag\<close>, which is never negative).
\<close>

datatype ieee = Finite real | PlusInf | MinusInf | NotANumber

text \<open>
  The least magnitudes that round to an infinity in binary32 and in binary64 (the largest
  finite value plus half a unit in the last place).
\<close>

definition float_overflow :: real where
  "float_overflow = 2 ^ 128 - 2 ^ 103"

definition double_overflow :: real where
  "double_overflow = 2 ^ 1024 - 2 ^ 970"

text \<open>
  The store of a result in a \<^verbatim>\<open>float\<close> and in a \<^verbatim>\<open>double\<close>: a magnitude out of
  range becomes the infinity of its sign.
\<close>

fun to_float :: "ieee \<Rightarrow> ieee" where
  "to_float (Finite r) =
     (if float_overflow \<le> r then PlusInf
      else if r \<le> - float_overflow then MinusInf else Finite r)"
| "to_float x = x"

fun to_double :: "ieee \<Rightarrow> ieee" where
  "to_double (Finite r) =
     (if double_overflow \<le> r then PlusInf
      else if r \<le> - double_overflow then MinusInf else Finite r)"
| "to_double x = x"

text \<open>
  The operations on the extended values before the range is applied, with the IEEE 754
  rules for infinities and NaN.
\<close>

fun is_negative :: "ieee \<Rightarrow> bool" where
  "is_negative (Finite r) = (r < 0)"
| "is_negative MinusInf = True"
| "is_negative x = False"

fun exact_neg :: "ieee \<Rightarrow> ieee" where
  "exact_neg (Finite a) = Finite (- a)"
| "exact_neg PlusInf = MinusInf"
| "exact_neg MinusInf = PlusInf"
| "exact_neg NotANumber = NotANumber"

fun exact_add :: "ieee \<Rightarrow> ieee \<Rightarrow> ieee" where
  "exact_add NotANumber b = NotANumber"
| "exact_add a NotANumber = NotANumber"
| "exact_add (Finite a) (Finite b) = Finite (a + b)"
| "exact_add PlusInf MinusInf = NotANumber"
| "exact_add MinusInf PlusInf = NotANumber"
| "exact_add PlusInf b = PlusInf"
| "exact_add a PlusInf = PlusInf"
| "exact_add MinusInf b = MinusInf"
| "exact_add a MinusInf = MinusInf"

fun exact_mul :: "ieee \<Rightarrow> ieee \<Rightarrow> ieee" where
  "exact_mul NotANumber b = NotANumber"
| "exact_mul a NotANumber = NotANumber"
| "exact_mul (Finite a) (Finite b) = Finite (a * b)"
| "exact_mul a b =
     (if a = Finite 0 \<or> b = Finite 0 then NotANumber
      else if is_negative a = is_negative b then PlusInf else MinusInf)"

fun exact_div :: "ieee \<Rightarrow> ieee \<Rightarrow> ieee" where
  "exact_div NotANumber b = NotANumber"
| "exact_div a NotANumber = NotANumber"
| "exact_div (Finite a) (Finite b) =
     (if b = 0 then (if a = 0 then NotANumber else if 0 < a then PlusInf else MinusInf)
      else Finite (a / b))"
| "exact_div (Finite a) b = Finite 0"
| "exact_div a (Finite b) = (if is_negative a = (b < 0) then PlusInf else MinusInf)"
| "exact_div a b = NotANumber"

text \<open>
  The operators \<open>+\<close>, \<open>-\<close>, \<open>*\<close>, \<open>/\<close> on these values are the operations of C on
  two \<^verbatim>\<open>float\<close> operands: the exact result, brought into the range of binary32. The
  comparisons are those of C: false with a NaN operand.
\<close>

instantiation ieee :: "{plus, minus, uminus, times, inverse, ord}"
begin

definition plus_ieee :: "ieee \<Rightarrow> ieee \<Rightarrow> ieee" where
  "plus_ieee a b = to_float (exact_add a b)"

definition minus_ieee :: "ieee \<Rightarrow> ieee \<Rightarrow> ieee" where
  "minus_ieee a b = to_float (exact_add a (exact_neg b))"

definition uminus_ieee :: "ieee \<Rightarrow> ieee" where
  "uminus_ieee a = exact_neg a"

definition times_ieee :: "ieee \<Rightarrow> ieee \<Rightarrow> ieee" where
  "times_ieee a b = to_float (exact_mul a b)"

definition divide_ieee :: "ieee \<Rightarrow> ieee \<Rightarrow> ieee" where
  "divide_ieee a b = to_float (exact_div a b)"

definition inverse_ieee :: "ieee \<Rightarrow> ieee" where
  "inverse_ieee a = to_float (exact_div (Finite 1) a)"

fun less_ieee :: "ieee \<Rightarrow> ieee \<Rightarrow> bool" where
  "less_ieee NotANumber b = False"
| "less_ieee a NotANumber = False"
| "less_ieee (Finite a) (Finite b) = (a < b)"
| "less_ieee a MinusInf = False"
| "less_ieee PlusInf b = False"
| "less_ieee MinusInf b = True"
| "less_ieee a PlusInf = True"

fun less_eq_ieee :: "ieee \<Rightarrow> ieee \<Rightarrow> bool" where
  "less_eq_ieee NotANumber b = False"
| "less_eq_ieee a NotANumber = False"
| "less_eq_ieee (Finite a) (Finite b) = (a \<le> b)"
| "less_eq_ieee MinusInf b = True"
| "less_eq_ieee a PlusInf = True"
| "less_eq_ieee a b = False"

instance ..

end

text \<open>
  The product and the quotient of C when an operand is a \<^verbatim>\<open>double\<close> (\<^verbatim>\<open>M_PI\<close>, and
  what follows it in lines 387-390).
\<close>

definition double_mul :: "ieee \<Rightarrow> ieee \<Rightarrow> ieee" where
  "double_mul a b = to_double (exact_mul a b)"

definition double_div :: "ieee \<Rightarrow> ieee \<Rightarrow> ieee" where
  "double_div a b = to_double (exact_div a b)"

text \<open>
  \<^verbatim>\<open>x != x\<close>, \<^verbatim>\<open>sqrt\<close>, \<^verbatim>\<open>acosf\<close> and \<^verbatim>\<open>fabs\<close> on these values.
\<close>

fun is_nan32 :: "ieee \<Rightarrow> bool" where
  "is_nan32 NotANumber = True"
| "is_nan32 x = False"

fun sqrt32 :: "ieee \<Rightarrow> ieee" where
  "sqrt32 (Finite a) = (if a < 0 then NotANumber else Finite (sqrt a))"
| "sqrt32 PlusInf = PlusInf"
| "sqrt32 x = NotANumber"

fun acosf32 :: "ieee \<Rightarrow> ieee" where
  "acosf32 (Finite a) = (if - 1 \<le> a \<and> a \<le> 1 then Finite (arccos a) else NotANumber)"
| "acosf32 x = NotANumber"

fun fabs32 :: "ieee \<Rightarrow> ieee" where
  "fabs32 (Finite a) = Finite \<bar>a\<bar>"
| "fabs32 NotANumber = NotANumber"
| "fabs32 x = PlusInf"

type_synonym vec32 = "ieee \<times> ieee \<times> ieee"
type_synonym quat32 = "ieee \<times> ieee \<times> ieee \<times> ieee"

text \<open>
  Modelled from the spec: \<^verbatim>\<open>CrossProduct(a, b, out)\<close> of the math library, the vector
  cross product, in \<^verbatim>\<open>float\<close> arithmetic.
\<close>

definition CrossProduct32 :: "vec32 \<Rightarrow> vec32 \<Rightarrow> vec32" where
  "CrossProduct32 a b =
     (case a of (a0, a1, a2) \<Rightarrow> case b of (b0, b1, b2) \<Rightarrow>
        (a1 * b2 - a2 * b1, a2 * b0 - a0 * b2, a0 * b1 - a1 * b0))"

text \<open>
  The fields of the AttitudeRaw object and of the state that \<^verbatim>\<open>updateAttitude\<close> reads
  or writes.
\<close>

record AttitudeRawData32 =
  gyros32 :: vec32
  accels32 :: vec32

record att_state32 =
  gyro_correct_int32 :: vec32
  accelKi32 :: ieee
  accelKp32 :: ieee
  q32 :: quat32
  lastSysTime32 :: "32 word"
  attitudeActual_q32 :: quat32

text \<open>
  The blocks of \<^verbatim>\<open>updateAttitude\<close> in the order of the source: the time step
  (lines 302-305), the down vector (321-323), the length of a vector (330, 350, 363, with
  the \<^verbatim>\<open>double\<close> result of \<^verbatim>\<open>sqrt\<close> stored in a \<^verbatim>\<open>float\<close>), the error vector
  (325-335), the rejection of linear acceleration (350-369), the corrected rates
  (309-312, 378-380), the time step of the quaternion (386-396), the hemisphere fix
  (398-403), the length of the quaternion (407), the renormalisation with the
  reinitialisation (408-420), and the function itself.
\<close>

definition time_step32 :: "32 word \<Rightarrow> 32 word \<Rightarrow> ieee" where
  "time_step32 thisSysTime lastTime =
     (if thisSysTime = lastTime then Finite 0.001
      else Finite (real (unat ((portMAX_DELAY AND (thisSysTime - lastTime)) div portTICK_RATE_MS)))
             / Finite 1000)"

definition grot_of32 :: "quat32 \<Rightarrow> vec32" where
  "grot_of32 qq =
     (case qq of (q0, q1, q2, q3) \<Rightarrow>
        (- (Finite 2 * (q1 * q3 - q0 * q2)),
         - (Finite 2 * (q2 * q3 + q0 * q1)),
         - (q0 * q0 - q1 * q1 - q2 * q2 + q3 * q3)))"

definition vec_mag32 :: "vec32 \<Rightarrow> ieee" where
  "vec_mag32 v = (case v of (v0, v1, v2) \<Rightarrow> to_float (sqrt32 (v0 * v0 + v1 * v1 + v2 * v2)))"

definition accel_err_rotation32 :: "quat32 \<Rightarrow> vec32 \<Rightarrow> vec32" where
  "accel_err_rotation32 qq acc =
     (let grot = grot_of32 qq;
          accel_err = CrossProduct32 acc grot;
          (a0, a1, a2) = acc;
          (g0, g1, g2) = grot;
          error_phi = acosf32 (a0 * g0 + a1 * g1 + a2 * g2);
          accel_err_mag = vec_mag32 accel_err;
          (e0, e1, e2) = accel_err
      in if accel_err_mag > Finite 0
         then (e0 * (error_phi / accel_err_mag),
               e1 * (error_phi / accel_err_mag),
               e2 * (error_phi / accel_err_mag))
         else accel_err)"

definition accel_err_rejection32 :: "vec32 \<Rightarrow> vec32 \<Rightarrow> vec32" where
  "accel_err_rejection32 acc accel_err =
     (let accel_mag = vec_mag32 acc;
          (e0, e1, e2) = accel_err
      in if accel_mag \<le> Finite 9.8 \<or> accel_mag > Finite 1.5 * Finite 9.8
         then (Finite 0, Finite 0, Finite 0)
         else
           (let displacement = acosf32 (Finite 9.8 / accel_mag);
                err_length = vec_mag32 accel_err
            in if err_length > Finite 0
               then (e0 - e0 * displacement / err_length,
                     e1 - e1 * displacement / err_length,
                     e2 - e2 * displacement / err_length)
               else accel_err))"

definition corrected_rates32 :: "ieee \<Rightarrow> AttitudeRawData32 \<Rightarrow> att_state32 \<Rightarrow> vec32" where
  "corrected_rates32 dT attitudeRaw s =
     (case gyros32 attitudeRaw of (gyro0, gyro1, gyro2) \<Rightarrow>
      case accel_err_rejection32 (accels32 attitudeRaw)
             (accel_err_rotation32 (q32 s) (accels32 attitudeRaw)) of (e0, e1, e2) \<Rightarrow>
        (gyro0 + e0 * accelKp32 s / dT,
         gyro1 + e1 * accelKp32 s / dT,
         gyro2 + e2 * accelKp32 s / dT))"

definition quat_integrate32 :: "quat32 \<Rightarrow> vec32 \<Rightarrow> ieee \<Rightarrow> quat32" where
  "quat_integrate32 qq gyro dT =
     (case qq of (q0, q1, q2, q3) \<Rightarrow> case gyro of (gyro0, gyro1, gyro2) \<Rightarrow>
       (let qdot0 = to_float (double_div (double_div (double_mul
                      ((- q1 * gyro0 - q2 * gyro1 - q3 * gyro2) * dT)
                      (Finite pi)) (Finite 180)) (Finite 2));
            qdot1 = to_float (double_div (double_div (double_mul
                      ((q0 * gyro0 - q3 * gyro1 + q2 * gyro2) * dT)
                      (Finite pi)) (Finite 180)) (Finite 2));
            qdot2 = to_float (double_div (double_div (double_mul
                      ((q3 * gyro0 + q0 * gyro1 - q1 * gyro2) * dT)
                      (Finite pi)) (Finite 180)) (Finite 2));
            qdot3 = to_float (double_div (double_div (double_mul
                      ((- q2 * gyro0 + q1 * gyro1 + q0 * gyro2) * dT)
                      (Finite pi)) (Finite 180)) (Finite 2))
        in (q0 + qdot0, q1 + qdot1, q2 + qdot2, q3 + qdot3)))"

definition hemisphere_fix32 :: "quat32 \<Rightarrow> quat32" where
  "hemisphere_fix32 qq =
     (case qq of (q0, q1, q2, q3) \<Rightarrow>
        if q0 < Finite 0 then (- q0, - q1, - q2, - q3) else (q0, q1, q2, q3))"

definition quat_mag32 :: "quat32 \<Rightarrow> ieee" where
  "quat_mag32 qq =
     (case qq of (q0, q1, q2, q3) \<Rightarrow>
        to_float (sqrt32 (q0 * q0 + q1 * q1 + q2 * q2 + q3 * q3)))"

definition quat_renormalize32 :: "quat32 \<Rightarrow> quat32" where
  "quat_renormalize32 qq =
     (case qq of (q0, q1, q2, q3) \<Rightarrow>
       (let qmag = quat_mag32 qq
        in if fabs32 qmag < Finite 0.001 \<or> is_nan32 qmag
           then (Finite 1, Finite 0, Finite 0, Finite 0)
           else (q0 / qmag, q1 / qmag, q2 / qmag, q3 / qmag)))"

definition updateAttitude32 ::
  "32 word \<Rightarrow> AttitudeRawData32 \<Rightarrow> att_state32 \<Rightarrow> att_state32" where
  "updateAttitude32 thisSysTime attitudeRaw s =
     (let dT = time_step32 thisSysTime (lastSysTime32 s);
          accel_err =
            accel_err_rejection32 (accels32 attitudeRaw)
              (accel_err_rotation32 (q32 s) (accels32 attitudeRaw));
          (e0, e1, e2) = accel_err;
          (c0, c1, c2) = gyro_correct_int32 s;
          gyro_correct_int' = (c0 + e0 * accelKi32 s, c1 + e1 * accelKi32 s, c2);
          gyro' = corrected_rates32 dT attitudeRaw s;
          q' = quat_renormalize32 (hemisphere_fix32 (quat_integrate32 (q32 s) gyro' dT))
      in s\<lparr>lastSysTime32 := thisSysTime,
            gyro_correct_int32 := gyro_correct_int',
            q32 := q',
            attitudeActual_q32 := q'\<rparr>)"

text \<open>The values that a sum of squares can take: not negative, in range, or \<open>+\<infinity>\<close>, or NaN.\<close>

definition sq_like :: "ieee \<Rightarrow> bool" where
  "sq_like x =
     (case x of Finite r \<Rightarrow> 0 \<le> r \<and> r < float_overflow
      | PlusInf \<Rightarrow> True | MinusInf \<Rightarrow> False | NotANumber \<Rightarrow> True)"

subsection \<open>Intermediate values named by the properties\<close>

text \<open>
  The gyro vector of lines 242-244 and 270-273: the raw counts mapped to deg/s with the
  sign convention and, when \<^verbatim>\<open>rotate\<close> is set, turned by \<^verbatim>\<open>R\<close>; the running bias
  correction is not added yet.
\<close>

definition gyros_before_bias :: "att_state \<Rightarrow> cfloat \<times> cfloat \<times> cfloat \<times> cfloat \<Rightarrow> vec3" where
  "gyros_before_bias s gyro =
     (case gyro of (gyro0, gyro1, gyro2, gyro3) \<Rightarrow>
       (let mapped = ((- (gyro1 - Fin 1665)) * gyroGain s,
                      (gyro2 - Fin 1665) * gyroGain s,
                      (- (gyro3 - Fin 1665)) * gyroGain s)
        in if rotate s \<noteq> 0 then rot_mult (R s) mapped else mapped))"

text \<open>The averaged accelerometer counts of lines 246-261, the array \<^verbatim>\<open>accel\<close>.\<close>

definition accel_average :: "cycle_env \<Rightarrow> vec3" where
  "accel_average env =
     (case accel_drain (fifo_reads env) 0 0 0 0 0 of (x, y, z, i, samples_remaining) \<Rightarrow>
        (float_of_i32 x / float_of_u8 i,
         float_of_i32 y / float_of_u8 i,
         float_of_i32 z / float_of_u8 i))"

text \<open>
  The accelerations in the order of the spec's overview of the conditioning stage, for
  comparison with the code: the bias is subtracted from the averaged counts and the
  result scaled to metres per second squared first, and the board rotation is applied to that.
\<close>

definition accels_bias_before_rotation :: "att_state \<Rightarrow> cycle_env \<Rightarrow> vec3" where
  "accels_bias_before_rotation s env =
     (case accel_average env of (a0, a1, a2) \<Rightarrow> case accelbias s of (b0, b1, b2) \<Rightarrow>
       (let scaled = ((a0 - float_of_i16 b0) * Fin 0.004 * Fin 9.81,
                      (a1 - float_of_i16 b1) * Fin 0.004 * Fin 9.81,
                      (a2 - float_of_i16 b2) * Fin 0.004 * Fin 9.81)
        in if rotate s \<noteq> 0 then rot_mult (R s) scaled else scaled))"

text \<open>
  The rejection of linear acceleration in the words of the spec, on real numbers, for
  comparison with the code: with \<open>a_mag\<close> the length of the accelerations, the error is
  zeroed when \<open>a_mag \<le> 9.8\<close> or \<open>a_mag > 1.5 * 9.8\<close>; else each component is
  shrunk by \<open>err * acos (9.8 / a_mag) / \<parallel>err\<parallel>\<close>, which is skipped when the length of
  the error is zero.
\<close>

definition linear_accel_rejection_spec ::
  "real \<times> real \<times> real \<Rightarrow> real \<times> real \<times> real \<Rightarrow> real \<times> real \<times> real" where
  "linear_accel_rejection_spec a err =
     (case a of (ax, ay, az) \<Rightarrow> case err of (ex, ey, ez) \<Rightarrow>
       (let a_mag = sqrt (ax\<^sup>2 + ay\<^sup>2 + az\<^sup>2)
        in if a_mag \<le> 9.8 \<or> a_mag > 1.5 * 9.8 then (0, 0, 0)
           else
             (let displacement = arccos (9.8 / a_mag);
                  norm_err = sqrt (ex\<^sup>2 + ey\<^sup>2 + ez\<^sup>2)
              in if norm_err = 0 then (ex, ey, ez)
                 else (ex - ex * displacement / norm_err,
                       ey - ey * displacement / norm_err,
                       ez - ez * displacement / norm_err))))"

subsection \<open>Example inputs\<close>

text \<open>
  The state that the initialisers of lines 76-92 and \<^verbatim>\<open>AttitudeInitialize\<close> leave, with
  the alarm cleared as at the start of the task.
\<close>

definition initial_state :: att_state where
  "initial_state =
     \<lparr>gyro_correct_int = (Fin 0, Fin 0, Fin 0),
      accelKi = Fin 0, accelKp = Fin 0, yawBiasRate = Fin 0, gyroGain = Fin 0.42,
      accelbias = (0, 0, 0),
      q = (Fin 1, Fin 0, Fin 0, Fin 0),
      R = ((Fin 0, Fin 0, Fin 0), (Fin 0, Fin 0, Fin 0), (Fin 0, Fin 0, Fin 0)),
      rotate = 0, zero_during_arming = False, bias_correct_gyro = True,
      lastSysTime = 0, init = 0, attitude_alarm = ALARM_CLEAR,
      attitudeRaw_obj = \<lparr>gyros = (Fin 0, Fin 0, Fin 0), accels = (Fin 0, Fin 0, Fin 0),
                         gyrotemp = (Fin 0, Fin 0)\<rparr>,
      attitudeActual_q = (Fin 1, Fin 0, Fin 0, Fin 0)\<rparr>"

text \<open>A state with a yaw bias of 2 deg/s accumulated and a yaw bias rate of 0.5.\<close>

definition yawing_state :: att_state where
  "yawing_state =
     initial_state\<lparr>gyro_correct_int := (Fin 0, Fin 0, Fin 2), yawBiasRate := Fin 0.5\<rparr>"

text \<open>
  A cycle at tick 5000 in which the gyro queue delivers a sample with the Z count 100
  above neutral and the accelerometer FIFO holds one sample, \<open>(1, 0, 0)\<close>.
\<close>

definition one_sample_env :: cycle_env where
  "one_sample_env =
     \<lparr>flight_armed = DISARMED,
      settings_obj = \<lparr>AccelKp = Fin 0.05, AccelKi = Fin 0.0001, YawBiasRate = Fin 0.000001\<rparr>,
      tick_first = 5000, tick_second = 5000, tick_update = 5000,
      gyro_queue_rx = Some (Fin 0, Fin 1665, Fin 1665, Fin 1765),
      fifo_elements = 1,
      fifo_reads = (\<lambda>k. (\<lparr>adxl_x = 1, adxl_y = 0, adxl_z = 0\<rparr>, 0))\<rparr>"

text \<open>
  A board mounted with a yaw of 90 degrees and an accelerometer bias of one count on X.
\<close>

definition rotated_state :: att_state where
  "rotated_state =
     initial_state\<lparr>rotate := 1,
                    R := ((Fin 0, Fin (- 1), Fin 0), (Fin 1, Fin 0, Fin 0), (Fin 0, Fin 0, Fin 1)),
                    accelbias := (1, 0, 0)\<rparr>"

text \<open>A state after the startup phase: the configured gains are loaded and \<^verbatim>\<open>init\<close> is 1.\<close>

definition settled_state :: att_state where
  "settled_state =
     initial_state\<lparr>accelKp := Fin 0.05, accelKi := Fin 0.0001,
                    yawBiasRate := Fin 0.000001, init := 1\<rparr>"

text \<open>The same cycle with both reads of the tick counter giving 1000.\<close>

definition boundary_env :: cycle_env where
  "boundary_env = one_sample_env\<lparr>tick_first := 1000, tick_second := 1000\<rparr>"

text \<open>The same cycle with an empty accelerometer FIFO.\<close>

definition empty_fifo_env :: cycle_env where
  "empty_fifo_env = one_sample_env\<lparr>fifo_elements := 0\<rparr>"

text \<open>
  For the range-aware model: the state at rest, raw data with a roll rate of \<open>10 ^ 30\<close>
  deg/s and an acceleration of 20 along Z, a state whose quaternion is \<open>(-3, 4, 0, 0)\<close>,
  and raw data at rest.
\<close>

definition level_state32 :: att_state32 where
  "level_state32 =
     \<lparr>gyro_correct_int32 = (Finite 0, Finite 0, Finite 0),
      accelKi32 = Finite 0, accelKp32 = Finite 0,
      q32 = (Finite 1, Finite 0, Finite 0, Finite 0),
      lastSysTime32 = 0,
      attitudeActual_q32 = (Finite 1, Finite 0, Finite 0, Finite 0)\<rparr>"

definition spinning_raw32 :: AttitudeRawData32 where
  "spinning_raw32 = \<lparr>gyros32 = (Finite (10 ^ 30), Finite 0, Finite 0),
                      accels32 = (Finite 0, Finite 0, Finite 20)\<rparr>"

definition tilted_state32 :: att_state32 where
  "tilted_state32 =
     \<lparr>gyro_correct_int32 = (Finite 0, Finite 0, Finite 0),
      accelKi32 = Finite 0, accelKp32 = Finite 0,
      q32 = (Finite (- 3), Finite 4, Finite 0, Finite 0),
      lastSysTime32 = 0,
      attitudeActual_q32 = (Finite 1, Finite 0, Finite 0, Finite 0)\<rparr>"

definition still_raw32 :: AttitudeRawData32 where
  "still_raw32 = \<lparr>gyros32 = (Finite 0, Finite 0, Finite 0),
                   accels32 = (Finite 0, Finite 0, Finite 0)\<rparr>"

section \<open>Properties\<close>

subsection \<open>Auxiliary facts\<close>

lemma cfloat_add_neg_mult: "(a::cfloat) + (- b) * r = a - b * r"
  by (cases a; cases b; cases r) simp_all

lemma accel_drain_count:
  "unat i < 32 \<Longrightarrow> accel_drain reads k x y z i = (x', y', z', i', r)
     \<Longrightarrow> unat i < unat i' \<and> unat i' \<le> 32"
proof (induction reads k x y z i rule: accel_drain.induct)
  case (1 reads k x y z i)
  have suc: "unat (i + 1) = unat i + 1"
    using "1.prems"(1) by (simp add: unat_word_ariths)
  show ?case
  proof (cases "i + 1 < 32 \<and> snd (reads k) > 0")
    case True
    then have lt: "unat (i + 1) < 32" by (simp add: word_less_nat_alt)
    from True "1.prems"(2) have
      "accel_drain reads (Suc k) (x + scast (adxl_x (fst (reads k))))
         (y + (- scast (adxl_y (fst (reads k))))) (z + (- scast (adxl_z (fst (reads k)))))
         (i + 1) = (x', y', z', i', r)"
      by (subst (asm) accel_drain.simps) (simp add: Let_def)
    from "1.IH" [OF refl refl refl refl refl refl True lt this] suc show ?thesis by simp
  next
    case False
    with "1.prems"(2) have "i' = i + 1"
      by (subst (asm) accel_drain.simps) (auto simp add: Let_def)
    with suc "1.prems"(1) show ?thesis by simp
  qed
qed

text \<open>What a successful call of \<^verbatim>\<open>updateSensors\<close> returns, in terms of the named values.\<close>

lemma updateSensors_success_eq:
  assumes "updateSensors s env raw = Inr (s', raw')"
      and "gyro_queue_rx env = Some gyro"
      and "gyros_before_bias s gyro = (g0, g1, g2)"
      and "(if rotate s \<noteq> 0 then rot_mult (R s) (accel_average env) else accel_average env)
             = (a0, a1, a2)"
      and "accelbias s = (b0, b1, b2)"
      and "gyro_correct_int s = (c0, c1, c2)"
  shows "s' = s\<lparr>gyro_correct_int :=
                  (c0, c1, c2 + (- (if bias_correct_gyro s then g2 + c2 else g2)) * yawBiasRate s)\<rparr>"
    and "gyros raw' = (if bias_correct_gyro s then (g0 + c0, g1 + c1, g2 + c2) else (g0, g1, g2))"
    and "accels raw' = ((a0 - float_of_i16 b0) * Fin 0.004 * Fin 9.81,
                        (a1 - float_of_i16 b1) * Fin 0.004 * Fin 9.81,
                        (a2 - float_of_i16 b2) * Fin 0.004 * Fin 9.81)"
  using assms
  by (cases gyro;
      auto simp: updateSensors_def gyros_before_bias_def accel_average_def Let_def
           split: if_splits prod.splits)+

lemma accel_drain_one_sample:
  "accel_drain (\<lambda>k. (\<lparr>adxl_x = 1, adxl_y = 0, adxl_z = 0\<rparr>, 0)) 0 0 0 0 0 = (1, 0, 0, 1, 0)"
  by (subst accel_drain.simps) (simp add: Let_def)

lemma updateSensors_one_sample:
  "updateSensors yawing_state one_sample_env (attitudeRaw_obj yawing_state) =
     Inr (yawing_state\<lparr>gyro_correct_int := (Fin 0, Fin 0, Fin 22)\<rparr>,
          \<lparr>gyros = (Fin 0, Fin 0, Fin (- 40)), accels = (Fin 0.03924, Fin 0, Fin 0),
           gyrotemp = (Fin 0, Fin 1)\<rparr>)"
  by (simp add: updateSensors_def accel_drain_one_sample Let_def one_sample_env_def
        yawing_state_def initial_state_def float_of_i32_def float_of_u8_def float_of_i16_def)

lemma accel_err_at_rest:
  "accel_err_rejection (accels (attitudeRaw_obj initial_state))
     (accel_err_rotation (q initial_state) (accels (attitudeRaw_obj initial_state)))
   = (Fin 0, Fin 0, Fin 0)"
  by (simp add: accel_err_rejection_def accel_err_rotation_def grot_of_def CrossProduct_def
        vec_mag_def initial_state_def Let_def)

lemma mask_all: "(0xFFFFFFFF :: 32 word) AND w = w"
proof -
  have "(0xFFFFFFFF :: 32 word) = - 1" by simp
  then show ?thesis by (simp only: and.left_neutral)
qed


lemma updateSensors_keeps:
  assumes "updateSensors s env raw = Inr (s', raw')"
  shows "\<exists>c. s' = s\<lparr>gyro_correct_int := c\<rparr>"
  using assms
  by (auto simp: updateSensors_def Let_def split: option.splits if_splits prod.splits)

lemma updateSensors_fails:
  assumes "updateSensors s env raw = Inl (e, s')"
  shows "s' = s \<or> s' = s\<lparr>attitude_alarm := ALARM_ERROR\<rparr>"
  using assms
  by (auto simp: updateSensors_def Let_def split: option.splits if_splits prod.splits)

lemma updateAttitude_gains:
  "accelKp (updateAttitude t raw s) = accelKp s"
  "accelKi (updateAttitude t raw s) = accelKi s"
  "yawBiasRate (updateAttitude t raw s) = yawBiasRate s"
  "init (updateAttitude t raw s) = init s"
  by (simp_all add: updateAttitude_def Let_def split: prod.splits)

lemma cycle_gains:
  "accelKp (AttitudeTask_cycle env s) = accelKp (gain_policy env s)"
  "accelKi (AttitudeTask_cycle env s) = accelKi (gain_policy env s)"
  "yawBiasRate (AttitudeTask_cycle env s) = yawBiasRate (gain_policy env s)"
  "init (AttitudeTask_cycle env s) = init (gain_policy env s)"
  by (auto simp: AttitudeTask_cycle_def Let_def updateAttitude_gains
      split: sum.splits prod.splits dest!: updateSensors_keeps updateSensors_fails)

lemma updateSensors_rotated:
  "updateSensors rotated_state one_sample_env (attitudeRaw_obj rotated_state) =
     Inr (rotated_state,
          \<lparr>gyros = (Fin 0, Fin 0, Fin (- 42)), accels = (Fin (- 0.03924), Fin 0.03924, Fin 0),
           gyrotemp = (Fin 0, Fin 1)\<rparr>)"
  by (simp add: updateSensors_def accel_drain_one_sample Let_def one_sample_env_def rot_mult_def
        rotated_state_def initial_state_def float_of_i32_def float_of_u8_def float_of_i16_def)

lemma accel_average_one_sample: "accel_average one_sample_env = (Fin 1, Fin 0, Fin 0)"
  by (simp add: accel_average_def one_sample_env_def accel_drain_one_sample
        float_of_i32_def float_of_u8_def)

lemma sum_squares4_nonneg: "0 \<le> (a::real) * a + b * b + c * c + d * d"
  by (intro add_nonneg_nonneg) simp_all

lemma sum_squares3_nonneg: "0 \<le> (a::real) * a + b * b + c * c"
  by (intro add_nonneg_nonneg) simp_all

lemma vec_mag_Fin:
  "vec_mag (Fin a, Fin b, Fin c) = Fin (sqrt (a * a + b * b + c * c))"
proof -
  have "\<not> a * a + b * b + c * c < 0"
    using sum_squares3_nonneg [of a b c] by linarith
  then show ?thesis by (simp add: vec_mag_def)
qed

lemma normalized_unit:
  fixes a b c d :: real
  assumes "m = sqrt (a * a + b * b + c * c + d * d)" and "m \<noteq> 0"
  shows "sqrt (a / m * (a / m) + b / m * (b / m) + c / m * (c / m) + d / m * (d / m)) = 1"
proof -
  let ?S = "a * a + b * b + c * c + d * d"
  have S: "0 \<le> ?S" by (rule sum_squares4_nonneg)
  have mm: "m * m = ?S" using assms(1) S by simp
  have "a / m * (a / m) + b / m * (b / m) + c / m * (c / m) + d / m * (d / m) = ?S / (m * m)"
    by (simp add: add_divide_distrib)
  also have "\<dots> = 1" using assms(2) by (simp add: mm [symmetric])
  finally show ?thesis by simp
qed

lemma vec_mag_cases: "vec_mag v = NaN \<or> (\<exists>m. vec_mag v = Fin m \<and> 0 \<le> m)"
proof -
  obtain v0 v1 v2 where v: "v = (v0, v1, v2)" by (metis prod_cases3)
  show ?thesis
    by (cases v0; cases v1; cases v2) (simp_all add: v vec_mag_Fin, simp_all add: vec_mag_def)
qed

lemma accel_err_rejection_cases:
  "accel_err_rejection acc (e0, e1, e2) =
     (if vec_mag acc \<le> Fin 9.8 \<or> vec_mag acc > Fin 14.7 then (Fin 0, Fin 0, Fin 0)
      else if vec_mag (e0, e1, e2) = Fin 0 \<or> is_nan (vec_mag (e0, e1, e2)) then (e0, e1, e2)
      else (e0 - e0 * c_acosf (Fin 9.8 / vec_mag acc) / vec_mag (e0, e1, e2),
            e1 - e1 * c_acosf (Fin 9.8 / vec_mag acc) / vec_mag (e0, e1, e2),
            e2 - e2 * c_acosf (Fin 9.8 / vec_mag acc) / vec_mag (e0, e1, e2)))"
proof -
  have pos: "(Fin 0 < vec_mag v) = (\<not> (vec_mag v = Fin 0 \<or> is_nan (vec_mag v)))" for v
    using vec_mag_cases [of v] by auto
  show ?thesis by (simp add: accel_err_rejection_def Let_def pos)
qed

lemma arccos_two_thirds: "arccos (2 / 3) \<noteq> pi / 2"
proof
  assume "arccos (2 / 3) = pi / 2"
  then have "cos (arccos (2 / 3)) = cos (pi / 2)" by (rule arg_cong)
  moreover have "cos (arccos (2 / 3)) = (2 / 3 :: real)" by (rule cos_arccos) simp_all
  moreover have "cos (pi / 2) = (0 :: real)" by (rule cos_pi_half)
  ultimately show False by simp
qed

lemma sqrt_self: "0 \<le> x \<Longrightarrow> sqrt (x * x) = x"
  by (simp add: real_sqrt_abs2)

lemma vec_mag_upper_boundary: "vec_mag (Fin 14.7, Fin 0, Fin 0) = Fin 1.5 * Fin 9.8"
proof -
  have "sqrt (14.7 * 14.7) = (14.7 :: real)" by (rule sqrt_self) simp
  then show ?thesis by (simp add: vec_mag_Fin)
qed

lemma accel_err_rotation_sideways:
  "accel_err_rotation (Fin 1, Fin 0, Fin 0, Fin 0) (Fin 14.7, Fin 0, Fin 0)
     = (Fin 0, Fin (pi / 2), Fin 0)"
proof -
  have "sqrt (14.7 * 14.7) = (14.7 :: real)" by (rule sqrt_self) simp
  then have m: "vec_mag (Fin 0, Fin 14.7, Fin 0) = Fin 14.7" by (simp add: vec_mag_Fin)
  show ?thesis
    by (simp add: accel_err_rotation_def grot_of_def CrossProduct_def Let_def m)
qed

lemma vec_mag_half_pi: "vec_mag (Fin 0, Fin (pi / 2), Fin 0) = Fin (pi / 2)"
proof -
  have "sqrt (pi / 2 * (pi / 2)) = pi / 2" by (rule sqrt_self) simp
  then show ?thesis by (simp add: vec_mag_Fin)
qed

subsection \<open>Auxiliary facts of the range-aware model\<close>

lemmas float_arith = plus_ieee_def minus_ieee_def uminus_ieee_def times_ieee_def divide_ieee_def
  float_overflow_def

lemmas double_arith = double_overflow_def double_mul_def double_div_def

lemmas ieee_arith = float_arith double_arith

lemma time_step32_one_second: "time_step32 1000 0 = Finite 1"
  by (simp add: time_step32_def portMAX_DELAY_def portTICK_RATE_MS_def mask_all float_arith)

lemma sqrt_400: "sqrt 400 = 20"
  using sqrt_self [of 20] by simp

lemma accel_err32_spinning: "accel_err_rejection32 (Finite 0, Finite 0, Finite 20)
   (accel_err_rotation32 (Finite 1, Finite 0, Finite 0, Finite 0) (Finite 0, Finite 0, Finite 20))
   = (Finite 0, Finite 0, Finite 0)"
  by (simp add: accel_err_rejection32_def accel_err_rotation32_def grot_of32_def
      CrossProduct32_def vec_mag32_def Let_def ieee_arith sqrt_400)


lemma corrected_rates32_spinning: "corrected_rates32 (Finite 1) spinning_raw32 level_state32
   = (Finite (10 ^ 30), Finite 0, Finite 0)"
  by (simp add: corrected_rates32_def spinning_raw32_def level_state32_def accel_err32_spinning ieee_arith)

lemma quat_integrate32_spinning:
  "\<exists>x. 2 ^ 64 \<le> x \<and>
     quat_integrate32 (Finite 1, Finite 0, Finite 0, Finite 0)
       (Finite (10 ^ 30), Finite 0, Finite 0) (Finite 1)
     = (Finite 1, Finite x, Finite 0, Finite 0)"
proof (intro exI conjI)
  show "(2::real) ^ 64 \<le> 10 ^ 30 * pi / 360"
    using pi_ge_two by simp
  show "quat_integrate32 (Finite 1, Finite 0, Finite 0, Finite 0)
       (Finite (10 ^ 30), Finite 0, Finite 0) (Finite 1)
     = (Finite 1, Finite (10 ^ 30 * pi / 360), Finite 0, Finite 0)"
    using pi_ge_two pi_less_4 by (simp add: quat_integrate32_def Let_def ieee_arith)
qed

lemma quat_renormalize32_overflow:
  assumes "2 ^ 64 \<le> x"
  shows "quat_renormalize32 (hemisphere_fix32 (Finite 1, Finite x, Finite 0, Finite 0))
           = (Finite 0, Finite 0, Finite 0, Finite 0)"
proof -
  have "(2::real) ^ 64 * 2 ^ 64 \<le> x * x"
    by (rule mult_mono [OF assms assms]) (use assms in simp_all)
  then have "float_overflow \<le> x * x"
    by (simp add: float_overflow_def)
  then have sq: "Finite x * Finite x = PlusInf"
    by (simp add: times_ieee_def)
  have m: "quat_mag32 (Finite 1, Finite x, Finite 0, Finite 0) = PlusInf"
    by (simp add: quat_mag32_def sq) (simp add: ieee_arith)
  show ?thesis
    by (simp add: hemisphere_fix32_def quat_renormalize32_def m Let_def)
       (simp add: ieee_arith)
qed

lemma updateAttitude32_q:
  "q32 (updateAttitude32 t raw s) =
     quat_renormalize32 (hemisphere_fix32 (quat_integrate32 (q32 s)
       (corrected_rates32 (time_step32 t (lastSysTime32 s)) raw s)
       (time_step32 t (lastSysTime32 s))))"
  "attitudeActual_q32 (updateAttitude32 t raw s) = q32 (updateAttitude32 t raw s)"
  by (simp_all add: updateAttitude32_def Let_def split: prod.splits)

lemma float_overflow_pos: "1 < float_overflow"
  by (simp add: float_overflow_def)

lemma to_float_nonneg:
  "0 \<le> r \<Longrightarrow> to_float (Finite r) = (if float_overflow \<le> r then PlusInf else Finite r)"
  using float_overflow_pos by simp

lemma to_float_small:
  "\<bar>r\<bar> \<le> 1 \<Longrightarrow> to_float (Finite r) = Finite r"
  using float_overflow_pos by (auto simp: abs_le_iff)

lemma square_ieee:
  "Finite a * Finite a = (if float_overflow \<le> a * a then PlusInf else Finite (a * a))"
  "PlusInf * PlusInf = PlusInf"
  "MinusInf * MinusInf = PlusInf"
  "NotANumber * NotANumber = NotANumber"
  by (simp_all add: times_ieee_def to_float_nonneg del: to_float.simps(1))

lemma square_sq_like: "sq_like (x * x)"
  by (cases x) (simp_all add: square_ieee sq_like_def)

lemma square_Finite: "x * x = Finite r \<Longrightarrow> \<exists>a. x = Finite a \<and> r = a * a"
  by (cases x) (simp_all add: square_ieee split: if_splits)

lemma add_nonneg_ieee:
  "0 \<le> r \<Longrightarrow> 0 \<le> r' \<Longrightarrow>
     Finite r + Finite r' = (if float_overflow \<le> r + r' then PlusInf else Finite (r + r'))"
  by (simp add: plus_ieee_def to_float_nonneg del: to_float.simps(1))

lemma add_special_ieee:
  "NotANumber + y = NotANumber" "x + NotANumber = NotANumber"
  "PlusInf + Finite r = PlusInf" "Finite r + PlusInf = PlusInf" "PlusInf + PlusInf = PlusInf"
  by (cases x; cases y; simp add: plus_ieee_def)+

lemma add_sq_like:
  assumes "sq_like x" and "sq_like y"
  shows "sq_like (x + y)"
    and "x + y = Finite t \<Longrightarrow> \<exists>r r'. x = Finite r \<and> y = Finite r' \<and> t = r + r'"
  using assms
  by (cases x; cases y;
      simp add: sq_like_def add_nonneg_ieee add_special_ieee split: if_splits)+

lemma sqrt_sq_like:
  assumes "sq_like x"
  shows "to_float (sqrt32 x) \<noteq> MinusInf"
    and "to_float (sqrt32 x) = Finite m \<Longrightarrow> \<exists>t. x = Finite t \<and> 0 \<le> t \<and> m = sqrt t"
  using assms
  by (cases x; simp add: sq_like_def to_float_nonneg del: to_float.simps(1) split: if_splits)+

lemma sqrt_in_range:
  assumes "0 \<le> t" and "t < float_overflow"
  shows "to_float (sqrt32 (Finite t)) = Finite (sqrt t)"
proof -
  have "float_overflow * 1 \<le> float_overflow * float_overflow"
    using float_overflow_pos by (intro mult_left_mono) simp_all
  with assms(2) have "t < float_overflow\<^sup>2" by (simp add: power2_eq_square)
  then have "sqrt t < float_overflow"
    using float_overflow_pos by (intro real_less_lsqrt) simp_all
  moreover have "0 \<le> sqrt t" using assms by simp
  ultimately show ?thesis using assms(1)
    by (simp add: to_float_nonneg del: to_float.simps(1))
qed

lemma quat_mag32_cases:
  "quat_mag32 (h0, h1, h2, h3) \<noteq> MinusInf"
  "quat_mag32 (h0, h1, h2, h3) = Finite m \<Longrightarrow>
     \<exists>a b c d. h0 = Finite a \<and> h1 = Finite b \<and> h2 = Finite c \<and> h3 = Finite d
       \<and> a * a + b * b + c * c + d * d < float_overflow
       \<and> m = sqrt (a * a + b * b + c * c + d * d)"
proof -
  let ?S = "h0 * h0 + h1 * h1 + h2 * h2 + h3 * h3"
  have s1: "sq_like (h0 * h0 + h1 * h1)"
    by (intro add_sq_like(1) square_sq_like)
  have s2: "sq_like (h0 * h0 + h1 * h1 + h2 * h2)"
    by (intro add_sq_like(1) square_sq_like)
  have s3: "sq_like ?S"
    by (intro add_sq_like(1) square_sq_like)
  show "quat_mag32 (h0, h1, h2, h3) \<noteq> MinusInf"
    using sqrt_sq_like(1) [OF s3] by (simp add: quat_mag32_def)
  assume "quat_mag32 (h0, h1, h2, h3) = Finite m"
  then have "to_float (sqrt32 ?S) = Finite m" by (simp add: quat_mag32_def)
  from sqrt_sq_like(2) [OF s3 this] obtain t where t: "?S = Finite t" "m = sqrt t" by blast
  from s3 t(1) have tb: "t < float_overflow" by (simp add: sq_like_def)
  from add_sq_like(2) [OF s2 square_sq_like t(1)] obtain u r3 where
    u: "h0 * h0 + h1 * h1 + h2 * h2 = Finite u" "h3 * h3 = Finite r3" "t = u + r3" by blast
  from add_sq_like(2) [OF s1 square_sq_like u(1)] obtain v r2 where
    v: "h0 * h0 + h1 * h1 = Finite v" "h2 * h2 = Finite r2" "u = v + r2" by blast
  from add_sq_like(2) [OF square_sq_like square_sq_like v(1)] obtain r0 r1 where
    w: "h0 * h0 = Finite r0" "h1 * h1 = Finite r1" "v = r0 + r1" by blast
  from square_Finite [OF w(1)] obtain a where a: "h0 = Finite a" "r0 = a * a" by blast
  from square_Finite [OF w(2)] obtain b where b: "h1 = Finite b" "r1 = b * b" by blast
  from square_Finite [OF v(2)] obtain c where c: "h2 = Finite c" "r2 = c * c" by blast
  from square_Finite [OF u(2)] obtain d where d: "h3 = Finite d" "r3 = d * d" by blast
  have "t = a * a + b * b + c * c + d * d"
    by (simp add: u(3) v(3) w(3) a(2) b(2) c(2) d(2))
  with t(2) tb a(1) b(1) c(1) d(1)
  show "\<exists>a b c d. h0 = Finite a \<and> h1 = Finite b \<and> h2 = Finite c \<and> h3 = Finite d
       \<and> a * a + b * b + c * c + d * d < float_overflow
       \<and> m = sqrt (a * a + b * b + c * c + d * d)"
    by blast
qed

lemma quat_mag32_small:
  fixes a b c d :: real
  assumes "a * a + b * b + c * c + d * d < float_overflow"
  shows "quat_mag32 (Finite a, Finite b, Finite c, Finite d)
           = Finite (sqrt (a * a + b * b + c * c + d * d))"
proof -
  have n: "0 \<le> a * a" "0 \<le> b * b" "0 \<le> c * c" "0 \<le> d * d" by simp_all
  from n assms have l: "a * a < float_overflow" "b * b < float_overflow"
    "c * c < float_overflow" "d * d < float_overflow"
    "a * a + b * b < float_overflow" "a * a + b * b + c * c < float_overflow"
    by linarith+
  from l assms have k: "\<not> float_overflow \<le> a * a" "\<not> float_overflow \<le> b * b"
    "\<not> float_overflow \<le> c * c" "\<not> float_overflow \<le> d * d"
    "\<not> float_overflow \<le> a * a + b * b" "\<not> float_overflow \<le> a * a + b * b + c * c"
    "\<not> float_overflow \<le> a * a + b * b + c * c + d * d"
    by linarith+
  have 0: "Finite a * Finite a = Finite (a * a)" "Finite b * Finite b = Finite (b * b)"
    "Finite c * Finite c = Finite (c * c)" "Finite d * Finite d = Finite (d * d)"
    by (simp_all only: square_ieee k if_False)
  have 1: "Finite (a * a) + Finite (b * b) = Finite (a * a + b * b)"
    by (simp only: add_nonneg_ieee [OF n(1) n(2)] k if_False)
  have ab: "0 \<le> a * a + b * b" using n by linarith
  have 2: "Finite (a * a + b * b) + Finite (c * c) = Finite (a * a + b * b + c * c)"
    by (simp only: add_nonneg_ieee [OF ab n(3)] k if_False)
  have abc: "0 \<le> a * a + b * b + c * c" using n by linarith
  have 3: "Finite (a * a + b * b + c * c) + Finite (d * d)
             = Finite (a * a + b * b + c * c + d * d)"
    by (simp only: add_nonneg_ieee [OF abc n(4)] k if_False)
  have "0 \<le> a * a + b * b + c * c + d * d" by (rule sum_squares4_nonneg)
  from sqrt_in_range [OF this assms] show ?thesis
    by (simp only: quat_mag32_def prod.case 0 1 2 3)
qed

lemma quat_mag32_identity: "quat_mag32 (Finite 1, Finite 0, Finite 0, Finite 0) = Finite 1"
proof -
  have "(1::real) * 1 + 0 * 0 + 0 * 0 + 0 * 0 < float_overflow"
    using float_overflow_pos by simp
  from quat_mag32_small [OF this] show ?thesis by simp
qed

lemma divide_by_norm:
  fixes a m S :: real
  assumes "a * a \<le> S" and "m = sqrt S" and "0 < m"
  shows "Finite a / Finite m = Finite (a / m)"
proof -
  have S: "0 \<le> S" using assms(1) zero_le_square [of a] by linarith
  have "m * m = S" using assms(2) S by simp
  with assms(1) have "a\<^sup>2 \<le> m\<^sup>2" by (simp add: power2_eq_square)
  then have "\<bar>a\<bar> \<le> \<bar>m\<bar>" by (simp only: abs_le_square_iff)
  with assms(3) have "\<bar>a / m\<bar> \<le> 1" by simp
  from to_float_small [OF this] assms(3) show ?thesis
    by (simp add: divide_ieee_def del: to_float.simps(1))
qed

lemma quat_renormalize32_unit:
  assumes "\<not> h0 < Finite 0" and "quat_mag32 (h0, h1, h2, h3) \<noteq> PlusInf"
  shows "quat_renormalize32 (h0, h1, h2, h3) =
           (if quat_mag32 (h0, h1, h2, h3) < Finite 0.001
               \<or> is_nan32 (quat_mag32 (h0, h1, h2, h3))
            then (Finite 1, Finite 0, Finite 0, Finite 0)
            else (h0 / quat_mag32 (h0, h1, h2, h3), h1 / quat_mag32 (h0, h1, h2, h3),
                  h2 / quat_mag32 (h0, h1, h2, h3), h3 / quat_mag32 (h0, h1, h2, h3)))
      \<and> quat_mag32 (quat_renormalize32 (h0, h1, h2, h3)) = Finite 1
      \<and> Finite 0 \<le> fst (quat_renormalize32 (h0, h1, h2, h3))"
proof -
  let ?m = "quat_mag32 (h0, h1, h2, h3)"
  show ?thesis
  proof (cases ?m)
    case NotANumber
    then show ?thesis by (simp add: quat_renormalize32_def quat_mag32_identity)
  next
    case PlusInf
    with assms(2) show ?thesis by simp
  next
    case MinusInf
    with quat_mag32_cases(1) [of h0 h1 h2 h3] show ?thesis by simp
  next
    case (Finite m)
    from quat_mag32_cases(2) [OF Finite] obtain a b c d where
      h: "h0 = Finite a" "h1 = Finite b" "h2 = Finite c" "h3 = Finite d"
      and m: "m = sqrt (a * a + b * b + c * c + d * d)" by blast
    let ?S = "a * a + b * b + c * c + d * d"
    have S: "0 \<le> ?S" by (rule sum_squares4_nonneg)
    have m0: "0 \<le> m" using m S by simp
    have a0: "0 \<le> a" using assms(1) h(1) by simp
    have Fm: "quat_mag32 (Finite a, Finite b, Finite c, Finite d) = Finite m"
      using Finite by (simp only: h)
    show ?thesis
    proof (cases "m < 0.001")
      case True
      with m0 show ?thesis
        by (simp add: quat_renormalize32_def quat_mag32_identity h Fm Let_def)
    next
      case False
      then have mp: "0 < m" by simp
      have le: "a * a \<le> ?S" "b * b \<le> ?S" "c * c \<le> ?S" "d * d \<le> ?S"
        using zero_le_square [of a] zero_le_square [of b] zero_le_square [of c]
          zero_le_square [of d] by linarith+
      note dv = divide_by_norm [OF le(1) m mp] divide_by_norm [OF le(2) m mp]
        divide_by_norm [OF le(3) m mp] divide_by_norm [OF le(4) m mp]
      have r: "quat_renormalize32 (h0, h1, h2, h3)
                 = (Finite (a / m), Finite (b / m), Finite (c / m), Finite (d / m))"
        using False m0 by (simp add: quat_renormalize32_def h Fm dv Let_def)
      have mz: "m \<noteq> 0" using mp by simp
      have one: "sqrt (a / m * (a / m) + b / m * (b / m) + c / m * (c / m) + d / m * (d / m)) = 1"
        by (rule normalized_unit [OF m mz])
      then have "a / m * (a / m) + b / m * (b / m) + c / m * (c / m) + d / m * (d / m) = 1"
        by simp
      then have "a / m * (a / m) + b / m * (b / m) + c / m * (c / m) + d / m * (d / m)
                   < float_overflow"
        using float_overflow_pos by simp
      from quat_mag32_small [OF this] one have
        "quat_mag32 (Finite (a / m), Finite (b / m), Finite (c / m), Finite (d / m)) = Finite 1"
        by simp
      with r False m0 a0 mp show ?thesis
        by (simp add: h Fm dv)
    qed
  qed
qed

lemma hemisphere_fix32_first:
  "\<not> fst (hemisphere_fix32 (n0, n1, n2, n3)) < Finite 0"
  by (cases n0) (simp_all add: hemisphere_fix32_def uminus_ieee_def)

lemma sqrt_25: "sqrt 25 = 5"
  using sqrt_self [of 5] by simp

lemma corrected_rates32_still:
  "corrected_rates32 (Finite 1) still_raw32 tilted_state32 = (Finite 0, Finite 0, Finite 0)"
  by (simp add: corrected_rates32_def still_raw32_def tilted_state32_def
        accel_err_rejection32_def accel_err_rotation32_def grot_of32_def CrossProduct32_def
        vec_mag32_def Let_def float_arith)

lemma quat_integrate32_still:
  "quat_integrate32 (Finite (- 3), Finite 4, Finite 0, Finite 0)
     (Finite 0, Finite 0, Finite 0) (Finite 1) = (Finite (- 3), Finite 4, Finite 0, Finite 0)"
  by (simp add: quat_integrate32_def Let_def float_arith double_arith)

lemma quat_mag32_tilted: "quat_mag32 (Finite 3, Finite (- 4), Finite 0, Finite 0) = Finite 5"
  by (simp add: quat_mag32_def float_arith sqrt_25)

subsection \<open>The sample count of the accelerometer average\<close>

text \<open>
  Claim C10. Whenever \<^verbatim>\<open>updateSensors\<close> succeeds, the do-while loop has run at least
  once and at most 32 times: the sample count \<open>i\<close> that it leaves satisfies
  \<open>1 \<le> i \<le> 32\<close>, it is the value published in \<^verbatim>\<open>gyrotemp[1]\<close>, it is not zero as a
  float, and the three averages \<open>x / i\<close>, \<open>y / i\<close>, \<open>z / i\<close> are the finite quotients.
\<close>

theorem sample_count_bounds:
  assumes "updateSensors s env raw = Inr (s', raw')"
      and "accel_drain (fifo_reads env) 0 0 0 0 0 = (x, y, z, i, r)"
  shows "1 \<le> unat i \<and> unat i \<le> 32 \<and> gyrotemp raw' = (float_of_u8 r, float_of_u8 i)
         \<and> float_of_u8 i \<noteq> Fin 0
         \<and> accel_average env = (Fin (real_of_int (sint x) / real (unat i)),
                                 Fin (real_of_int (sint y) / real (unat i)),
                                 Fin (real_of_int (sint z) / real (unat i)))"
proof -
  from accel_drain_count [OF _ assms(2)] have b: "1 \<le> unat i" "unat i \<le> 32" by simp_all
  from assms have g: "gyrotemp raw' = (float_of_u8 r, float_of_u8 i)"
    by (auto simp: updateSensors_def Let_def split: option.splits if_splits prod.splits)
  from b have nz: "real (unat i) \<noteq> 0" by (simp del: of_nat_unat)
  then show ?thesis using b g assms(2)
    by (simp add: accel_average_def float_of_u8_def float_of_i32_def del: of_nat_unat)
qed

theorem sample_count_bounds_witness:
  "updateSensors yawing_state one_sample_env (attitudeRaw_obj yawing_state) =
     Inr (yawing_state\<lparr>gyro_correct_int := (Fin 0, Fin 0, Fin 22)\<rparr>,
          \<lparr>gyros = (Fin 0, Fin 0, Fin (- 40)), accels = (Fin 0.03924, Fin 0, Fin 0),
           gyrotemp = (Fin 0, Fin 1)\<rparr>)
   \<and> accel_drain (fifo_reads one_sample_env) 0 0 0 0 0 = (1, 0, 0, 1, 0)
   \<and> 1 \<le> unat (1 :: 8 word) \<and> unat (1 :: 8 word) \<le> 32 \<and> float_of_u8 1 \<noteq> Fin 0
   \<and> accel_average one_sample_env = (Fin 1, Fin 0, Fin 0)"
proof -
  have d: "accel_drain (fifo_reads one_sample_env) 0 0 0 0 0 = (1, 0, 0, 1, 0)"
    by (simp add: one_sample_env_def accel_drain_one_sample)
  from sample_count_bounds [OF updateSensors_one_sample d] updateSensors_one_sample d
  show ?thesis by (simp add: float_of_u8_def)
qed

subsection \<open>The yaw bias\<close>

text \<open>
  Claim C6. When \<^verbatim>\<open>updateSensors\<close> succeeds with \<^verbatim>\<open>bias_correct_gyro\<close> set, the
  published gyro vector is the conditioned one plus the running correction, and the yaw
  bias is updated with the published, already corrected Z value:
  the new \<open>gyro_bias[2]\<close> is \<open>gyro_bias[2] - (gz_raw + gyro_bias[2]) * yaw_bias_rate\<close>.
\<close>

theorem yaw_bias_feedback:
  assumes "updateSensors s env raw = Inr (s', raw')"
      and "bias_correct_gyro s"
      and "gyro_queue_rx env = Some gyro"
      and "gyros_before_bias s gyro = (gx_raw, gy_raw, gz_raw)"
      and "gyro_correct_int s = (c0, c1, c2)"
  shows "gyros raw' = (gx_raw + c0, gy_raw + c1, gz_raw + c2)
         \<and> gyro_correct_int s' = (c0, c1, c2 - (gz_raw + c2) * yawBiasRate s)"
proof -
  obtain a0 a1 a2 where a:
    "(if rotate s \<noteq> 0 then rot_mult (R s) (accel_average env) else accel_average env)
       = (a0, a1, a2)"
    by (metis prod_cases3)
  obtain b0 b1 b2 where b: "accelbias s = (b0, b1, b2)" by (metis prod_cases3)
  from updateSensors_success_eq(1,2) [OF assms(1) assms(3) assms(4) a b assms(5)] assms(2)
  show ?thesis by (simp add: cfloat_add_neg_mult)
qed

theorem yaw_bias_feedback_witness:
  "updateSensors yawing_state one_sample_env (attitudeRaw_obj yawing_state) =
     Inr (yawing_state\<lparr>gyro_correct_int := (Fin 0, Fin 0, Fin 22)\<rparr>,
          \<lparr>gyros = (Fin 0, Fin 0, Fin (- 40)), accels = (Fin 0.03924, Fin 0, Fin 0),
           gyrotemp = (Fin 0, Fin 1)\<rparr>)
   \<and> bias_correct_gyro yawing_state
   \<and> gyro_queue_rx one_sample_env = Some (Fin 0, Fin 1665, Fin 1665, Fin 1765)
   \<and> gyros_before_bias yawing_state (Fin 0, Fin 1665, Fin 1665, Fin 1765)
       = (Fin 0, Fin 0, Fin (- 42))
   \<and> gyro_correct_int yawing_state = (Fin 0, Fin 0, Fin 2)
   \<and> Fin 22 = Fin 2 - (Fin (- 42) + Fin 2) * yawBiasRate yawing_state"
proof -
  have 1: "bias_correct_gyro yawing_state"
    by (simp add: yawing_state_def initial_state_def)
  have 2: "gyro_queue_rx one_sample_env = Some (Fin 0, Fin 1665, Fin 1665, Fin 1765)"
    by (simp add: one_sample_env_def)
  have 3: "gyros_before_bias yawing_state (Fin 0, Fin 1665, Fin 1665, Fin 1765)
             = (Fin 0, Fin 0, Fin (- 42))"
    by (simp add: gyros_before_bias_def yawing_state_def initial_state_def)
  have 4: "gyro_correct_int yawing_state = (Fin 0, Fin 0, Fin 2)"
    by (simp add: yawing_state_def initial_state_def)
  from yaw_bias_feedback [OF updateSensors_one_sample 1 2 3 4] updateSensors_one_sample 1 2 3 4
  show ?thesis by simp
qed

text \<open>
  Claim C7. A successful call of \<^verbatim>\<open>updateSensors\<close> changes nothing of the state but
  the third component of \<^verbatim>\<open>gyro_correct_int\<close>: the quaternion, the first two bias
  components, \<^verbatim>\<open>R\<close> and \<^verbatim>\<open>rotate\<close> are as before. \<^verbatim>\<open>updateAttitude\<close> adds
  \<open>accel_err[i] * accelKi\<close> to the first two bias components and leaves the third as it is.
\<close>

theorem gyro_bias_partition:
  assumes "updateSensors s env raw = Inr (s', raw')"
      and "gyro_correct_int s = (c0, c1, c2)"
      and "gyro_correct_int s2 = (d0, d1, d2)"
      and "accel_err_rejection (accels raw2) (accel_err_rotation (q s2) (accels raw2))
             = (e0, e1, e2)"
  shows "s' = s\<lparr>gyro_correct_int := (c0, c1, c2 + (- snd (snd (gyros raw'))) * yawBiasRate s)\<rparr>
         \<and> q s' = q s \<and> R s' = R s \<and> rotate s' = rotate s
         \<and> gyro_correct_int (updateAttitude t raw2 s2)
             = (d0 + e0 * accelKi s2, d1 + e1 * accelKi s2, d2)"
proof -
  from assms(1) obtain gyro where g: "gyro_queue_rx env = Some gyro"
    by (auto simp: updateSensors_def split: option.splits)
  obtain g0 g1 g2 where gb: "gyros_before_bias s gyro = (g0, g1, g2)" by (metis prod_cases3)
  obtain a0 a1 a2 where a:
    "(if rotate s \<noteq> 0 then rot_mult (R s) (accel_average env) else accel_average env)
       = (a0, a1, a2)"
    by (metis prod_cases3)
  obtain b0 b1 b2 where b: "accelbias s = (b0, b1, b2)" by (metis prod_cases3)
  note eqs = updateSensors_success_eq(1,2) [OF assms(1) g gb a b assms(2)]
  from eqs have 1:
    "s' = s\<lparr>gyro_correct_int := (c0, c1, c2 + (- snd (snd (gyros raw'))) * yawBiasRate s)\<rparr>"
    by simp
  have 2: "q s' = q s \<and> R s' = R s \<and> rotate s' = rotate s"
    by (subst 1, simp)+
  have 3: "gyro_correct_int (updateAttitude t raw2 s2)
             = (d0 + e0 * accelKi s2, d1 + e1 * accelKi s2, d2)"
    using assms(3,4) by (simp add: updateAttitude_def Let_def split: prod.splits)
  from 1 2 3 show ?thesis by simp
qed

theorem gyro_bias_partition_witness:
  "updateSensors yawing_state one_sample_env (attitudeRaw_obj yawing_state) =
     Inr (yawing_state\<lparr>gyro_correct_int := (Fin 0, Fin 0, Fin 22)\<rparr>,
          \<lparr>gyros = (Fin 0, Fin 0, Fin (- 40)), accels = (Fin 0.03924, Fin 0, Fin 0),
           gyrotemp = (Fin 0, Fin 1)\<rparr>)
   \<and> gyro_correct_int yawing_state = (Fin 0, Fin 0, Fin 2)
   \<and> gyro_correct_int initial_state = (Fin 0, Fin 0, Fin 0)
   \<and> accel_err_rejection (accels (attitudeRaw_obj initial_state))
        (accel_err_rotation (q initial_state) (accels (attitudeRaw_obj initial_state)))
       = (Fin 0, Fin 0, Fin 0)
   \<and> gyro_correct_int (updateAttitude 5000 (attitudeRaw_obj initial_state) initial_state)
       = (Fin 0, Fin 0, Fin 0)"
proof -
  have 2: "gyro_correct_int yawing_state = (Fin 0, Fin 0, Fin 2)"
    by (simp add: yawing_state_def initial_state_def)
  have 3: "gyro_correct_int initial_state = (Fin 0, Fin 0, Fin 0)"
    by (simp add: initial_state_def)
  have 4: "accelKi initial_state = Fin 0"
    by (simp add: initial_state_def)
  from gyro_bias_partition [OF updateSensors_one_sample 2 3 accel_err_at_rest, of 5000]
    updateSensors_one_sample 2 3 4 accel_err_at_rest
  show ?thesis by simp
qed

subsection \<open>The order of the conditioning stage\<close>

text \<open>
  Claim C9, as stated, fails. With the board rotation set, the bias subtracted first and
  the rotation applied afterwards would give \<open>(0, 0, 0)\<close> for one sample \<open>(1, 0, 0)\<close>
  with the bias \<open>(1, 0, 0)\<close> and a yaw of 90 degrees; \<^verbatim>\<open>updateSensors\<close> publishes
  \<open>(-0.03924, 0.03924, 0)\<close>.
\<close>

theorem conditioning_order_counterexample:
  "updateSensors rotated_state one_sample_env (attitudeRaw_obj rotated_state) =
     Inr (rotated_state,
          \<lparr>gyros = (Fin 0, Fin 0, Fin (- 42)), accels = (Fin (- 0.03924), Fin 0.03924, Fin 0),
           gyrotemp = (Fin 0, Fin 1)\<rparr>)
   \<and> accels_bias_before_rotation rotated_state one_sample_env = (Fin 0, Fin 0, Fin 0)
   \<and> accels_bias_before_rotation rotated_state one_sample_env
       \<noteq> (Fin (- 0.03924), Fin 0.03924, Fin 0)"
proof -
  have "accels_bias_before_rotation rotated_state one_sample_env = (Fin 0, Fin 0, Fin 0)"
    by (simp add: accels_bias_before_rotation_def accel_average_one_sample
          rot_mult_def rotated_state_def initial_state_def float_of_i16_def)
  with updateSensors_rotated show ?thesis by simp
qed

text \<open>
  Claim C9, amended. \<^verbatim>\<open>updateSensors\<close> applies the board rotation to the averaged raw
  counts first; the bias is subtracted from the rotated counts and the result scaled by
  \<open>0.004 * 9.81\<close> afterwards. The gyro bias correction is added to the rotated gyro
  vector, after the rotation.
\<close>

theorem conditioning_order:
  assumes "updateSensors s env raw = Inr (s', raw')"
      and "gyro_queue_rx env = Some gyro"
      and "(if rotate s \<noteq> 0 then rot_mult (R s) (accel_average env) else accel_average env)
             = (a0, a1, a2)"
      and "accelbias s = (b0, b1, b2)"
      and "gyros_before_bias s gyro = (g0, g1, g2)"
      and "gyro_correct_int s = (c0, c1, c2)"
  shows "accels raw' = ((a0 - float_of_i16 b0) * Fin 0.004 * Fin 9.81,
                        (a1 - float_of_i16 b1) * Fin 0.004 * Fin 9.81,
                        (a2 - float_of_i16 b2) * Fin 0.004 * Fin 9.81)
         \<and> gyros raw' = (if bias_correct_gyro s then (g0 + c0, g1 + c1, g2 + c2)
                          else (g0, g1, g2))"
  using updateSensors_success_eq(2,3) [OF assms(1,2,5,3,4,6)] by simp

theorem conditioning_order_witness:
  "updateSensors rotated_state one_sample_env (attitudeRaw_obj rotated_state) =
     Inr (rotated_state,
          \<lparr>gyros = (Fin 0, Fin 0, Fin (- 42)), accels = (Fin (- 0.03924), Fin 0.03924, Fin 0),
           gyrotemp = (Fin 0, Fin 1)\<rparr>)
   \<and> rot_mult (R rotated_state) (accel_average one_sample_env) = (Fin 0, Fin 1, Fin 0)
   \<and> accelbias rotated_state = (1, 0, 0)
   \<and> (Fin (- 0.03924), Fin 0.03924, Fin 0) =
       ((Fin 0 - float_of_i16 1) * Fin 0.004 * Fin 9.81,
        (Fin 1 - float_of_i16 0) * Fin 0.004 * Fin 9.81,
        (Fin 0 - float_of_i16 0) * Fin 0.004 * Fin 9.81)"
proof -
  have 2: "gyro_queue_rx one_sample_env = Some (Fin 0, Fin 1665, Fin 1665, Fin 1765)"
    by (simp add: one_sample_env_def)
  have 3: "(if rotate rotated_state \<noteq> 0
            then rot_mult (R rotated_state) (accel_average one_sample_env)
            else accel_average one_sample_env) = (Fin 0, Fin 1, Fin 0)"
    by (simp add: accel_average_one_sample rot_mult_def rotated_state_def initial_state_def)
  have 4: "accelbias rotated_state = (1, 0, 0)"
    by (simp add: rotated_state_def initial_state_def)
  have 5: "gyros_before_bias rotated_state (Fin 0, Fin 1665, Fin 1665, Fin 1765)
             = (Fin 0, Fin 0, Fin (- 42))"
    by (simp add: gyros_before_bias_def rot_mult_def rotated_state_def initial_state_def)
  have 6: "gyro_correct_int rotated_state = (Fin 0, Fin 0, Fin 0)"
    by (simp add: rotated_state_def initial_state_def)
  have r: "rotate rotated_state \<noteq> 0"
    by (simp add: rotated_state_def initial_state_def)
  from conditioning_order [OF updateSensors_rotated 2 3 4 5 6] updateSensors_rotated 3 4 r
  show ?thesis by (simp add: float_of_i16_def)
qed


subsection \<open>The time step\<close>




subsection \<open>The startup window\<close>

text \<open>
  Claim C3, as stated, fails. With both reads of the tick counter giving 1000, a value of
  the closed interval, with the arming condition false and \<^verbatim>\<open>init\<close> set, the cycle
  leaves the configured \<^verbatim>\<open>accelKp\<close> 0.05 and \<^verbatim>\<open>init\<close> as they are.
\<close>

theorem startup_gain_window_counterexample:
  "1000 \<le> unat (tick_first boundary_env) \<and> unat (tick_first boundary_env) \<le> 7000
   \<and> tick_second boundary_env = tick_first boundary_env
   \<and> \<not> (zero_during_arming settled_state \<and> flight_armed boundary_env = ARMING)
   \<and> accelKp (AttitudeTask_cycle boundary_env settled_state) = Fin 0.05
   \<and> accelKp (AttitudeTask_cycle boundary_env settled_state) \<noteq> Fin 1
   \<and> init (AttitudeTask_cycle boundary_env settled_state) \<noteq> 0"
  by (simp add: cycle_gains gain_policy_def boundary_env_def one_sample_env_def
        settled_state_def initial_state_def)


text \<open>
  Claim C3, amended. The gains and \<^verbatim>\<open>init\<close> after a cycle are the forced values
  \<open>1\<close>, \<open>0.9\<close>, \<open>0.23\<close> and \<open>0\<close> exactly when the first read of the tick counter is
  below 7000 and the second above 1000, both strictly (or the arming condition holds);
  otherwise they are the settings, with \<^verbatim>\<open>init\<close> 1, when \<^verbatim>\<open>init\<close> was 0, and unchanged
  when it was not.
\<close>

theorem startup_gain_window:
  "(accelKp (AttitudeTask_cycle env s), accelKi (AttitudeTask_cycle env s),
    yawBiasRate (AttitudeTask_cycle env s), init (AttitudeTask_cycle env s)) =
   (if unat (tick_first env) < 7000 \<and> 1000 < unat (tick_second env)
    then (Fin 1, Fin 0.9, Fin 0.23, 0)
    else if zero_during_arming s \<and> flight_armed env = ARMING
    then (Fin 1, Fin 0.9, Fin 0.23, 0)
    else if init s = 0
    then (AccelKp (settings_obj env), AccelKi (settings_obj env), YawBiasRate (settings_obj env), 1)
    else (accelKp s, accelKi s, yawBiasRate s, init s))"
  by (simp add: cycle_gains gain_policy_def word_less_nat_alt)


subsection \<open>The alarm when the accelerometer FIFO is empty\<close>

text \<open>
  Claim C1, as stated, fails. A cycle that starts with the alarm clear, receives a gyro
  sample and finds the accelerometer FIFO empty ends with the alarm at Error.
\<close>

theorem accel_empty_alarm_counterexample:
  "gyro_queue_rx empty_fifo_env \<noteq> None
   \<and> fifo_elements empty_fifo_env = 0
   \<and> attitude_alarm initial_state = ALARM_CLEAR
   \<and> attitude_alarm (AttitudeTask_cycle empty_fifo_env initial_state) = ALARM_ERROR
   \<and> attitude_alarm (AttitudeTask_cycle empty_fifo_env initial_state) \<noteq> attitude_alarm initial_state"
  by (simp add: AttitudeTask_cycle_def updateSensors_def Let_def empty_fifo_env_def
        one_sample_env_def initial_state_def)



text \<open>
  Claim C1, amended. When the gyro queue delivers a sample and the accelerometer FIFO is
  empty, \<^verbatim>\<open>updateSensors\<close> fails without touching the state, the alarm included; the
  task then sets the Attitude alarm to Error and skips \<^verbatim>\<open>updateAttitude\<close> and the
  publication: the state after the cycle is the state after the choice of the gains with
  the alarm at Error.
\<close>

theorem accel_empty_alarm:
  assumes "gyro_queue_rx env = Some gyro" and "fifo_elements env = 0"
  shows "updateSensors s env raw = Inl (AccelEmpty, s)
         \<and> AttitudeTask_cycle env s = (gain_policy env s)\<lparr>attitude_alarm := ALARM_ERROR\<rparr>"
  using assms
  by (cases gyro) (simp add: updateSensors_def AttitudeTask_cycle_def Let_def)

theorem accel_empty_alarm_witness:
  "gyro_queue_rx empty_fifo_env = Some (Fin 0, Fin 1665, Fin 1665, Fin 1765)
   \<and> fifo_elements empty_fifo_env = 0
   \<and> updateSensors initial_state empty_fifo_env (attitudeRaw_obj initial_state)
       = Inl (AccelEmpty, initial_state)
   \<and> attitude_alarm (AttitudeTask_cycle empty_fifo_env initial_state) = ALARM_ERROR"
proof -
  have 1: "gyro_queue_rx empty_fifo_env = Some (Fin 0, Fin 1665, Fin 1665, Fin 1765)"
    by (simp add: empty_fifo_env_def one_sample_env_def)
  have 2: "fifo_elements empty_fifo_env = 0"
    by (simp add: empty_fifo_env_def)
  from accel_empty_alarm [OF 1 2] 1 2 show ?thesis by simp
qed

subsection \<open>The rejection of linear acceleration\<close>

text \<open>
  Claim C4. For all accelerations and every error vector, the error vector after the
  rejection is zero when \<open>a_mag \<le> 9.8\<close> (the value 9.8 included) or \<open>a_mag > 14.7\<close>;
  else it is unchanged when its length is zero (or not a number), and else each component
  \<open>e\<close> becomes \<open>e - e * acos (9.8 / a_mag) / \<parallel>err\<parallel>\<close>. On finite values this is the
  function that the spec describes.
\<close>

theorem linear_accel_rejection:
  "accel_err_rejection acc (e0, e1, e2) =
     (if vec_mag acc \<le> Fin 9.8 \<or> vec_mag acc > Fin 14.7 then (Fin 0, Fin 0, Fin 0)
      else if vec_mag (e0, e1, e2) = Fin 0 \<or> is_nan (vec_mag (e0, e1, e2)) then (e0, e1, e2)
      else (e0 - e0 * c_acosf (Fin 9.8 / vec_mag acc) / vec_mag (e0, e1, e2),
            e1 - e1 * c_acosf (Fin 9.8 / vec_mag acc) / vec_mag (e0, e1, e2),
            e2 - e2 * c_acosf (Fin 9.8 / vec_mag acc) / vec_mag (e0, e1, e2)))
   \<and> accel_err_rejection (Fin ax, Fin ay, Fin az) (Fin ex, Fin ey, Fin ez) =
       (case linear_accel_rejection_spec (ax, ay, az) (ex, ey, ez) of
          (r0, r1, r2) \<Rightarrow> (Fin r0, Fin r1, Fin r2))"
proof -
  note A = accel_err_rejection_cases
  define m where "m = sqrt (ax * ax + ay * ay + az * az)"
  define n where "n = sqrt (ex * ex + ey * ey + ez * ez)"
  have n0: "0 \<le> n" by (simp add: n_def sum_squares3_nonneg)
  have B: "accel_err_rejection (Fin ax, Fin ay, Fin az) (Fin ex, Fin ey, Fin ez) =
       (case linear_accel_rejection_spec (ax, ay, az) (ex, ey, ez) of
          (r0, r1, r2) \<Rightarrow> (Fin r0, Fin r1, Fin r2))"
  proof (cases "m \<le> 9.8 \<or> m > 14.7")
    case True
    then show ?thesis
      by (auto simp add: A vec_mag_Fin linear_accel_rejection_spec_def Let_def power2_eq_square
            m_def [symmetric])
  next
    case False
    then have m: "9.8 < m" "m \<le> 14.7" by auto
    then have r: "0 \<le> 9.8 / m" "9.8 / m \<le> 1" "m \<noteq> 0" by simp_all
    from r(1) have "- 1 \<le> 9.8 / m" by linarith
    with r have ac: "c_acosf (Fin 9.8 / Fin m) = Fin (arccos (9.8 / m))" by simp
    show ?thesis
    proof (cases "n = 0")
      case True
      with m show ?thesis
        by (simp add: A vec_mag_Fin linear_accel_rejection_spec_def Let_def power2_eq_square
              m_def [symmetric] n_def [symmetric])
    next
      case False
      with m ac show ?thesis
        by (simp add: A vec_mag_Fin linear_accel_rejection_spec_def Let_def power2_eq_square
              m_def [symmetric] n_def [symmetric])
    qed
  qed
  from A [of acc e0 e1 e2] B show ?thesis by simp
qed



text \<open>
  Claim C2, as stated, fails. With the quaternion at the identity and the accelerations
  \<open>(14.7, 0, 0)\<close>, of length exactly \<open>1.5 * 9.8\<close>, the error vector that
  \<^verbatim>\<open>updateAttitude\<close> goes on with is not zero.
\<close>

theorem upper_boundary_attenuates_counterexample:
  "vec_mag (Fin 14.7, Fin 0, Fin 0) = Fin 1.5 * Fin 9.8
   \<and> accel_err_rejection (Fin 14.7, Fin 0, Fin 0)
        (accel_err_rotation (Fin 1, Fin 0, Fin 0, Fin 0) (Fin 14.7, Fin 0, Fin 0))
       \<noteq> (Fin 0, Fin 0, Fin 0)"
proof -
  have "accel_err_rejection (Fin 14.7, Fin 0, Fin 0) (Fin 0, Fin (pi / 2), Fin 0)
       = (Fin 0, Fin (pi / 2 - arccos (2 / 3)), Fin 0)"
    using vec_mag_upper_boundary
    by (simp add: accel_err_rejection_def Let_def vec_mag_half_pi)
  moreover have "pi / 2 - arccos (2 / 3) \<noteq> 0" using arccos_two_thirds by simp
  ultimately show ?thesis
    using vec_mag_upper_boundary by (simp add: accel_err_rotation_sideways)
qed

text \<open>
  Claim C2, amended. When the length of the accelerations is exactly \<open>1.5 * 9.8\<close>, the
  error vector is not zeroed: the boundary is on the attenuating side of the strict test
  \<open>a_mag > 1.5 * 9.8\<close>. Each component \<open>e\<close> becomes \<open>e - e * acos (2 / 3) / \<parallel>err\<parallel>\<close>
  when the length of the error is positive, and the error is unchanged when it is not.
\<close>

theorem upper_boundary_attenuates:
  assumes "vec_mag acc = Fin 1.5 * Fin 9.8"
  shows "accel_err_rejection acc (e0, e1, e2) =
           (if vec_mag (e0, e1, e2) > Fin 0
            then (e0 - e0 * Fin (arccos (2 / 3)) / vec_mag (e0, e1, e2),
                  e1 - e1 * Fin (arccos (2 / 3)) / vec_mag (e0, e1, e2),
                  e2 - e2 * Fin (arccos (2 / 3)) / vec_mag (e0, e1, e2))
            else (e0, e1, e2))"
  using assms by (simp add: accel_err_rejection_def Let_def)

theorem upper_boundary_attenuates_witness:
  "vec_mag (Fin 14.7, Fin 0, Fin 0) = Fin 1.5 * Fin 9.8
   \<and> accel_err_rejection (Fin 14.7, Fin 0, Fin 0) (Fin 0, Fin (pi / 2), Fin 0)
       = (Fin 0, Fin (pi / 2 - arccos (2 / 3)), Fin 0)"
  using upper_boundary_attenuates [OF vec_mag_upper_boundary, of "Fin 0" "Fin (pi / 2)" "Fin 0"]
    vec_mag_upper_boundary
  by (simp add: vec_mag_half_pi)

subsection \<open>The quaternion after a step\<close>

text \<open>
  Claim C5, as stated, fails. With the quaternion at the identity, a roll rate of
  \<open>10 ^ 30\<close> deg/s and a time step of one second, the second component after the time
  step is about \<open>8.7 * 10 ^ 27\<close>; its square overflows binary32, the length is
  \<open>+\<infinity>\<close>, every quotient by it is zero and neither test of the reinitialisation
  holds: \<^verbatim>\<open>updateAttitude\<close> stores \<open>(0, 0, 0, 0)\<close>, of length 0.
\<close>

theorem quaternion_unit_counterexample:
  "q32 (updateAttitude32 1000 spinning_raw32 level_state32)
     = (Finite 0, Finite 0, Finite 0, Finite 0)
   \<and> quat_mag32 (q32 (updateAttitude32 1000 spinning_raw32 level_state32)) = Finite 0
   \<and> \<not> Finite 0.999 \<le> quat_mag32 (q32 (updateAttitude32 1000 spinning_raw32 level_state32))"
proof -
  have t: "time_step32 1000 (lastSysTime32 level_state32) = Finite 1"
    by (simp add: level_state32_def time_step32_one_second)
  have q0: "q32 level_state32 = (Finite 1, Finite 0, Finite 0, Finite 0)"
    by (simp add: level_state32_def)
  from quat_integrate32_spinning obtain x where x: "2 ^ 64 \<le> x"
    and i: "quat_integrate32 (Finite 1, Finite 0, Finite 0, Finite 0)
       (Finite (10 ^ 30), Finite 0, Finite 0) (Finite 1)
     = (Finite 1, Finite x, Finite 0, Finite 0)"
    by blast
  have 1: "q32 (updateAttitude32 1000 spinning_raw32 level_state32)
     = (Finite 0, Finite 0, Finite 0, Finite 0)"
    by (simp only: updateAttitude32_q t corrected_rates32_spinning q0 i quat_renormalize32_overflow [OF x])
  have 2: "quat_mag32 (Finite 0, Finite 0, Finite 0, Finite 0) = Finite 0"
    by (simp add: quat_mag32_def ieee_arith)
  from 1 2 show ?thesis by simp
qed

text \<open>
  Claim C5, amended. Let \<open>n\<close> be the quaternion after the time step of lines 386-396 and
  \<open>h\<close> be \<open>n\<close> with all four components negated when \<open>n[0] < 0\<close>. Whenever the
  length of \<open>h\<close> computed at line 407 is not \<open>+\<infinity>\<close>, the quaternion that
  \<^verbatim>\<open>updateAttitude\<close> stores is the identity when that length is below 0.001 or NaN and
  \<open>h\<close> divided by its length otherwise; its length is between 0.999 and 1.001, its
  first component is not negative, and the published quaternion is the stored one.
\<close>

theorem quaternion_unit_unless_overflow:
  assumes "quat_integrate32 (q32 s)
             (corrected_rates32 (time_step32 t (lastSysTime32 s)) raw s)
             (time_step32 t (lastSysTime32 s)) = (n0, n1, n2, n3)"
      and "(if n0 < Finite 0 then (- n0, - n1, - n2, - n3) else (n0, n1, n2, n3))
             = (h0, h1, h2, h3)"
      and "quat_mag32 (h0, h1, h2, h3) \<noteq> PlusInf"
  shows "q32 (updateAttitude32 t raw s) =
           (if quat_mag32 (h0, h1, h2, h3) < Finite 0.001
               \<or> is_nan32 (quat_mag32 (h0, h1, h2, h3))
            then (Finite 1, Finite 0, Finite 0, Finite 0)
            else (h0 / quat_mag32 (h0, h1, h2, h3), h1 / quat_mag32 (h0, h1, h2, h3),
                  h2 / quat_mag32 (h0, h1, h2, h3), h3 / quat_mag32 (h0, h1, h2, h3)))
         \<and> Finite 0.999 \<le> quat_mag32 (q32 (updateAttitude32 t raw s))
         \<and> quat_mag32 (q32 (updateAttitude32 t raw s)) \<le> Finite 1.001
         \<and> Finite 0 \<le> fst (q32 (updateAttitude32 t raw s))
         \<and> attitudeActual_q32 (updateAttitude32 t raw s) = q32 (updateAttitude32 t raw s)"
proof -
  have hf: "hemisphere_fix32 (n0, n1, n2, n3) = (h0, h1, h2, h3)"
    using assms(2) by (simp add: hemisphere_fix32_def)
  from hf hemisphere_fix32_first [of n0 n1 n2 n3] have nn: "\<not> h0 < Finite 0" by simp
  have stored: "q32 (updateAttitude32 t raw s) = quat_renormalize32 (h0, h1, h2, h3)"
    by (simp only: updateAttitude32_q(1) assms(1) hf)
  note u = quat_renormalize32_unit [OF nn assms(3)]
  from u have m1: "quat_mag32 (quat_renormalize32 (h0, h1, h2, h3)) = Finite 1"
    and f0: "Finite 0 \<le> fst (quat_renormalize32 (h0, h1, h2, h3))"
    by blast+
  from u have c1: "q32 (updateAttitude32 t raw s) =
           (if quat_mag32 (h0, h1, h2, h3) < Finite 0.001
               \<or> is_nan32 (quat_mag32 (h0, h1, h2, h3))
            then (Finite 1, Finite 0, Finite 0, Finite 0)
            else (h0 / quat_mag32 (h0, h1, h2, h3), h1 / quat_mag32 (h0, h1, h2, h3),
                  h2 / quat_mag32 (h0, h1, h2, h3), h3 / quat_mag32 (h0, h1, h2, h3)))"
    unfolding stored by (rule conjunct1)
  have c2: "Finite 0.999 \<le> quat_mag32 (q32 (updateAttitude32 t raw s))"
    unfolding stored m1 by simp
  have c3: "quat_mag32 (q32 (updateAttitude32 t raw s)) \<le> Finite 1.001"
    unfolding stored m1 by simp
  have c4: "Finite 0 \<le> fst (q32 (updateAttitude32 t raw s))"
    unfolding stored by (rule f0)
  from c1 c2 c3 c4 updateAttitude32_q(2) [of t raw s] show ?thesis
    by (intro conjI)
qed

theorem quaternion_unit_unless_overflow_witness:
  "quat_integrate32 (q32 tilted_state32)
     (corrected_rates32 (time_step32 1000 (lastSysTime32 tilted_state32)) still_raw32
        tilted_state32)
     (time_step32 1000 (lastSysTime32 tilted_state32))
     = (Finite (- 3), Finite 4, Finite 0, Finite 0)
   \<and> quat_mag32 (Finite 3, Finite (- 4), Finite 0, Finite 0) = Finite 5
   \<and> q32 (updateAttitude32 1000 still_raw32 tilted_state32)
       = (Finite 0.6, Finite (- 0.8), Finite 0, Finite 0)
   \<and> Finite 0.999 \<le> quat_mag32 (q32 (updateAttitude32 1000 still_raw32 tilted_state32))
   \<and> quat_mag32 (q32 (updateAttitude32 1000 still_raw32 tilted_state32)) \<le> Finite 1.001"
proof -
  have t: "time_step32 1000 (lastSysTime32 tilted_state32) = Finite 1"
    by (simp add: tilted_state32_def time_step32_one_second)
  have q0: "q32 tilted_state32 = (Finite (- 3), Finite 4, Finite 0, Finite 0)"
    by (simp add: tilted_state32_def)
  have 1: "quat_integrate32 (q32 tilted_state32)
     (corrected_rates32 (time_step32 1000 (lastSysTime32 tilted_state32)) still_raw32
        tilted_state32)
     (time_step32 1000 (lastSysTime32 tilted_state32))
     = (Finite (- 3), Finite 4, Finite 0, Finite 0)"
    by (simp only: t q0 corrected_rates32_still quat_integrate32_still)
  have 2: "(if Finite (- 3) < Finite 0
            then (- Finite (- 3), - Finite 4, - Finite 0, - Finite 0)
            else (Finite (- 3), Finite 4, Finite 0, Finite 0))
           = (Finite 3, Finite (- 4), Finite 0, Finite 0)"
    by (simp add: uminus_ieee_def)
  have 3: "quat_mag32 (Finite 3, Finite (- 4), Finite 0, Finite 0) \<noteq> PlusInf"
    by (simp add: quat_mag32_tilted)
  note th = quaternion_unit_unless_overflow [OF 1 2 3]
  from th have s: "q32 (updateAttitude32 1000 still_raw32 tilted_state32)
       = (Finite 0.6, Finite (- 0.8), Finite 0, Finite 0)"
    by (simp add: quat_mag32_tilted divide_ieee_def float_overflow_def)
  from th have b:
    "Finite 0.999 \<le> quat_mag32 (q32 (updateAttitude32 1000 still_raw32 tilted_state32))"
    "quat_mag32 (q32 (updateAttitude32 1000 still_raw32 tilted_state32)) \<le> Finite 1.001"
    by blast+
  from 1 quat_mag32_tilted s b show ?thesis by blast
qed

end
